theory Spec2Isabelle
  imports Main "HOL-Library.Sublist"
begin

section \<open>Multi-LLM provider resolution (src/agents/providers.py)\<close>

text \<open>
  The module resolves a model identifier such as \<open>openai:gpt-4o\<close> or \<open>fallback\<close> into a
  model handle of the pydantic-ai library. Everything the Python functions read or change
  besides their argument is made explicit here:
  \<^item> the settings object (src/config/settings.py) is a record of the fields the module reads;
  \<^item> the process environment read by \<open>os.getenv\<close> is a function from names to optional values;
  \<^item> the module global \<open>settings\<close> behind \<open>get_settings\<close> and the records written through
    \<open>logger\<close> are the two components of an explicit state, which every function takes and
    returns;
  \<^item> a raised exception is the \<open>Inl\<close> side of the result;
  \<^item> the classes of the third-party libraries (openai, anthropic, pydantic-ai) are free
    constructors, and a parameter says which constructor calls raise.
\<close>

subsection \<open>Settings and environment\<close>

text \<open>
  The fields of class \<open>Settings\<close> that providers.py reads. An \<open>Optional[str]\<close> field is a
  \<open>string option\<close>, a \<open>str\<close> field a \<open>string\<close>.
\<close>

record settings =
  ai_model :: string
  openai_api_key :: "string option"
  openai_model_name :: string
  openai_base_url :: "string option"
  anthropic_api_key :: "string option"
  anthropic_model_name :: string
  anthropic_base_url :: "string option"
  google_api_key :: "string option"
  gemini_model_name :: string
  google_base_url :: "string option"
  openrouter_api_key :: "string option"
  openrouter_model_name :: string
  openrouter_base_url :: string

text \<open>The \<open>Field(default=...)\<close> values of class \<open>Settings\<close>.\<close>

definition Settings_defaults :: settings where
  "Settings_defaults =
     \<lparr> ai_model = ''openai:gpt-4o'',
       openai_api_key = None,
       openai_model_name = ''gpt-4o'',
       openai_base_url = None,
       anthropic_api_key = None,
       anthropic_model_name = ''claude-3-5-sonnet-latest'',
       anthropic_base_url = None,
       google_api_key = None,
       gemini_model_name = ''gemini-2.5-pro'',
       google_base_url = None,
       openrouter_api_key = None,
       openrouter_model_name = ''openai/gpt-4o'',
       openrouter_base_url = ''https://openrouter.ai/api/v1'' \<rparr>"

text \<open>\<open>os.getenv(name)\<close>: the value of the variable, or \<open>None\<close>.\<close>

type_synonym environ = "string \<Rightarrow> string option"

subsection \<open>Python truthiness and \<open>or\<close> on optional strings\<close>

text \<open>\<open>None\<close> and the empty string are false; every other string is true.\<close>

definition truthy :: "string option \<Rightarrow> bool" where
  "truthy v = (case v of None \<Rightarrow> False | Some x \<Rightarrow> x \<noteq> [])"

text \<open>\<open>a or b\<close> is \<open>a\<close> when \<open>a\<close> is true, and \<open>b\<close> (whatever it is) otherwise.\<close>

definition py_or :: "string option \<Rightarrow> string option \<Rightarrow> string option" where
  "py_or a b = (if truthy a then a else b)"

text \<open>\<open>if v:\<close> on an optional string: the string when it is true.\<close>

definition if_truthy :: "string option \<Rightarrow> string option" where
  "if_truthy v = (case v of None \<Rightarrow> None | Some x \<Rightarrow> if x = [] then None else Some x)"

text \<open>\<open>s.startswith(p)\<close>.\<close>

definition startswith :: "string \<Rightarrow> string \<Rightarrow> bool" where
  "startswith s p = prefix p s"

subsection \<open>Exceptions\<close>

text \<open>
  Modelled from the spec: the two exception classes of src/exceptions.py, which is not among
  the sources. \<open>ConfigurationException\<close> is the spec's ConfigurationError and
  \<open>AIProviderException\<close> its ProviderInitError, which wraps the original cause; the fields
  are the keyword arguments providers.py passes (\<open>message\<close>, \<open>config_key\<close>, \<open>details\<close>;
  \<open>message\<close>, \<open>provider\<close>, \<open>model\<close>, \<open>original_error\<close>). \<open>LibraryError\<close> stands for any
  exception raised inside a third-party constructor. Every value of this type is an
  instance of Python's \<open>Exception\<close>, so an \<open>except Exception\<close> clause catches it.
\<close>

datatype exn =
    ConfigurationException string string "(string \<times> string) list"
  | AIProviderException string string string exn
  | LibraryError string

fun is_ConfigurationError :: "exn \<Rightarrow> bool" where
  "is_ConfigurationError (ConfigurationException m k d) = True"
| "is_ConfigurationError (AIProviderException m p n e) = False"
| "is_ConfigurationError (LibraryError x) = False"

fun is_ProviderInitError :: "exn \<Rightarrow> bool" where
  "is_ProviderInitError (ConfigurationException m k d) = False"
| "is_ProviderInitError (AIProviderException m p n e) = True"
| "is_ProviderInitError (LibraryError x) = False"

text \<open>Sequencing of statements that may raise: the first exception ends the block.\<close>

definition and_then :: "exn + 'a \<Rightarrow> ('a \<Rightarrow> exn + 'b) \<Rightarrow> exn + 'b" where
  "and_then r f = (case r of Inl e \<Rightarrow> Inl e | Inr x \<Rightarrow> f x)"

subsection \<open>Third-party clients, providers and models\<close>

text \<open>
  The objects the module builds are kept as the constructor calls that build them:
  \<open>AsyncOpenAI(api_key=k, base_url=u)\<close>, \<open>OpenAIProvider(api_key=k)\<close>,
  \<open>OpenAIProvider(openai_client=c)\<close>, \<open>OpenAIModel(name, provider=p)\<close> and so on.
  \<open>FallbackModel(primary, *fallbacks)\<close> keeps the primary model string and the list of
  the others.
\<close>

datatype client =
    AsyncOpenAI string string
  | AsyncAnthropic string string

datatype provider =
    OpenAIProvider_api_key string
  | OpenAIProvider_openai_client client
  | AnthropicProvider_api_key string
  | AnthropicProvider_anthropic_client client
  | GoogleProvider_api_key string

datatype model =
    OpenAIModel string provider
  | AnthropicModel string provider
  | GoogleModel string provider
  | FallbackModel string "string list"

text \<open>
  The libraries are not part of the repository: whether a constructor call raises, and
  what, is a parameter of every function below.
\<close>

record sdk =
  client_raises :: "client \<Rightarrow> exn option"
  provider_raises :: "provider \<Rightarrow> exn option"
  model_raises :: "model \<Rightarrow> exn option"

definition construct :: "('a \<Rightarrow> exn option) \<Rightarrow> 'a \<Rightarrow> exn + 'a" where
  "construct raises x = (case raises x of Some e \<Rightarrow> Inl e | None \<Rightarrow> Inr x)"

text \<open>The libraries in which no constructor call raises.\<close>

definition sdk_ok :: sdk where
  "sdk_ok = \<lparr> client_raises = (\<lambda>c. None), provider_raises = (\<lambda>p. None),
             model_raises = (\<lambda>m. None) \<rparr>"

text \<open>The libraries in which every constructor call raises.\<close>

definition sdk_broken :: sdk where
  "sdk_broken = \<lparr> client_raises = (\<lambda>c. Some (LibraryError ''client'')),
                 provider_raises = (\<lambda>p. Some (LibraryError ''provider'')),
                 model_raises = (\<lambda>m. Some (LibraryError ''model'')) \<rparr>"

text \<open>
  The libraries in which every constructor that is given a key or a client succeeds and
  \<open>FallbackModel\<close>, which is given model strings only, raises: the strings cannot be
  resolved.
\<close>

definition sdk_strings_unresolved :: sdk where
  "sdk_strings_unresolved =
     \<lparr> client_raises = (\<lambda>c. None), provider_raises = (\<lambda>p. None),
       model_raises = (\<lambda>m. case m of FallbackModel a bs \<Rightarrow> Some (LibraryError ''UserError'')
                                   | _ \<Rightarrow> None) \<rparr>"

text \<open>What a handle is bound to: its model name, its API key and its base URL.\<close>

fun client_api_key :: "client \<Rightarrow> string" where
  "client_api_key (AsyncOpenAI k u) = k"
| "client_api_key (AsyncAnthropic k u) = k"

fun client_base_url :: "client \<Rightarrow> string" where
  "client_base_url (AsyncOpenAI k u) = u"
| "client_base_url (AsyncAnthropic k u) = u"

fun provider_api_key :: "provider \<Rightarrow> string" where
  "provider_api_key (OpenAIProvider_api_key k) = k"
| "provider_api_key (OpenAIProvider_openai_client c) = client_api_key c"
| "provider_api_key (AnthropicProvider_api_key k) = k"
| "provider_api_key (AnthropicProvider_anthropic_client c) = client_api_key c"
| "provider_api_key (GoogleProvider_api_key k) = k"

fun provider_base_url :: "provider \<Rightarrow> string option" where
  "provider_base_url (OpenAIProvider_api_key k) = None"
| "provider_base_url (OpenAIProvider_openai_client c) = Some (client_base_url c)"
| "provider_base_url (AnthropicProvider_api_key k) = None"
| "provider_base_url (AnthropicProvider_anthropic_client c) = Some (client_base_url c)"
| "provider_base_url (GoogleProvider_api_key k) = None"

fun handle_model_name :: "model \<Rightarrow> string option" where
  "handle_model_name (OpenAIModel n p) = Some n"
| "handle_model_name (AnthropicModel n p) = Some n"
| "handle_model_name (GoogleModel n p) = Some n"
| "handle_model_name (FallbackModel a bs) = None"

fun handle_api_key :: "model \<Rightarrow> string option" where
  "handle_api_key (OpenAIModel n p) = Some (provider_api_key p)"
| "handle_api_key (AnthropicModel n p) = Some (provider_api_key p)"
| "handle_api_key (GoogleModel n p) = Some (provider_api_key p)"
| "handle_api_key (FallbackModel a bs) = None"

fun handle_base_url :: "model \<Rightarrow> string option" where
  "handle_base_url (OpenAIModel n p) = provider_base_url p"
| "handle_base_url (AnthropicModel n p) = provider_base_url p"
| "handle_base_url (GoogleModel n p) = provider_base_url p"
| "handle_base_url (FallbackModel a bs) = None"

text \<open>The ordered chain a fallback handle wraps: primary first.\<close>

fun handle_chain :: "model \<Rightarrow> string list" where
  "handle_chain (FallbackModel a bs) = a # bs"
| "handle_chain (OpenAIModel n p) = []"
| "handle_chain (AnthropicModel n p) = []"
| "handle_chain (GoogleModel n p) = []"

subsection \<open>State: the settings singleton and the log\<close>

datatype level = INFO | WARNING | ERROR

text \<open>
  A log record is its level and its message. A message that formats an exception
  (\<open>f"...: {e}"\<close>) keeps the exception itself, since \<open>__str__\<close> of the exception classes
  is not among the sources.
\<close>

datatype log_record =
    Log level string
  | LogExn level string exn

record world =
  settings_global :: "settings option"
  log_records :: "log_record list"

text \<open>
  \<open>get_settings\<close> of src/config/settings.py: the global is created on first use and
  returned unchanged afterwards. \<open>loaded\<close> is the object \<open>Settings()\<close> builds from the
  unchanged configuration sources.
\<close>

definition get_settings :: "settings \<Rightarrow> world \<Rightarrow> settings \<times> world" where
  "get_settings loaded w =
     (case settings_global w of
        None \<Rightarrow> (loaded, w\<lparr>settings_global := Some loaded\<rparr>)
      | Some s \<Rightarrow> (s, w))"

definition logger :: "log_record \<Rightarrow> world \<Rightarrow> world" where
  "logger r w = w\<lparr>log_records := log_records w @ [r]\<rparr>"

subsection \<open>The four provider factories\<close>

text \<open>
  Each factory is one \<open>try\<close> block with a catch-all \<open>except Exception as e\<close> that logs the
  failure and raises \<open>AIProviderException(..., original_error=e)\<close>. \<open>r\<close> is the outcome of
  the \<open>try\<close> body; the \<open>raise ConfigurationException\<close> for a missing key is inside it.
  \<open>Settings()\<close> is taken to succeed: a validation failure of the settings loader is outside
  this development.
\<close>

definition get_openai_model :: "settings \<Rightarrow> sdk \<Rightarrow> environ \<Rightarrow> world \<Rightarrow> (exn + model) \<times> world" where
  "get_openai_model loaded sdk env w0 =
     (let (settings, w1) = get_settings loaded w0;
          base_url = py_or (openai_base_url settings) (env ''OPENAI_BASE_URL'');
          w2 = (case if_truthy base_url of
                  Some u \<Rightarrow> logger (Log INFO (''Using custom OpenAI base URL: '' @ u)) w1
                | None \<Rightarrow> w1);
          api_key = py_or (openai_api_key settings) (env ''OPENAI_API_KEY'');
          r = (case if_truthy api_key of
                 None \<Rightarrow>
                   Inl (ConfigurationException ''OpenAI API key not found'' ''openai_api_key''
                          [(''model_name'', openai_model_name settings)])
               | Some k \<Rightarrow>
                   (case if_truthy base_url of
                      Some u \<Rightarrow>
                        and_then (construct (client_raises sdk) (AsyncOpenAI k u)) (\<lambda>client.
                        and_then (construct (provider_raises sdk) (OpenAIProvider_openai_client client)) (\<lambda>provider.
                        construct (model_raises sdk) (OpenAIModel (openai_model_name settings) provider)))
                    | None \<Rightarrow>
                        and_then (construct (provider_raises sdk) (OpenAIProvider_api_key k)) (\<lambda>provider.
                        construct (model_raises sdk) (OpenAIModel (openai_model_name settings) provider))))
      in case r of
           Inr m \<Rightarrow> (Inr m, w2)
         | Inl e \<Rightarrow>
             (Inl (AIProviderException ''Failed to initialize OpenAI model'' ''openai''
                     (openai_model_name settings) e),
              logger (LogExn ERROR ''Failed to initialize OpenAI model: '' e) w2))"

definition get_anthropic_model :: "settings \<Rightarrow> sdk \<Rightarrow> environ \<Rightarrow> world \<Rightarrow> (exn + model) \<times> world" where
  "get_anthropic_model loaded sdk env w0 =
     (let (settings, w1) = get_settings loaded w0;
          base_url = py_or (anthropic_base_url settings) (env ''ANTHROPIC_BASE_URL'');
          w2 = (case if_truthy base_url of
                  Some u \<Rightarrow> logger (Log INFO (''Using custom Anthropic base URL: '' @ u)) w1
                | None \<Rightarrow> w1);
          api_key = py_or (anthropic_api_key settings) (env ''ANTHROPIC_API_KEY'');
          r = (case if_truthy api_key of
                 None \<Rightarrow>
                   Inl (ConfigurationException ''Anthropic API key not found'' ''anthropic_api_key''
                          [(''model_name'', anthropic_model_name settings)])
               | Some k \<Rightarrow>
                   (case if_truthy base_url of
                      Some u \<Rightarrow>
                        and_then (construct (client_raises sdk) (AsyncAnthropic k u)) (\<lambda>client.
                        and_then (construct (provider_raises sdk) (AnthropicProvider_anthropic_client client)) (\<lambda>provider.
                        construct (model_raises sdk) (AnthropicModel (anthropic_model_name settings) provider)))
                    | None \<Rightarrow>
                        and_then (construct (provider_raises sdk) (AnthropicProvider_api_key k)) (\<lambda>provider.
                        construct (model_raises sdk) (AnthropicModel (anthropic_model_name settings) provider))))
      in case r of
           Inr m \<Rightarrow> (Inr m, w2)
         | Inl e \<Rightarrow>
             (Inl (AIProviderException ''Failed to initialize Anthropic model'' ''anthropic''
                     (anthropic_model_name settings) e),
              logger (LogExn ERROR ''Failed to initialize Anthropic model: '' e) w2))"

text \<open>
  The Google factory computes \<open>base_url\<close> only to log it: the provider is always built from
  the API key alone.
\<close>

definition get_google_model :: "settings \<Rightarrow> sdk \<Rightarrow> environ \<Rightarrow> world \<Rightarrow> (exn + model) \<times> world" where
  "get_google_model loaded sdk env w0 =
     (let (settings, w1) = get_settings loaded w0;
          base_url = py_or (google_base_url settings) (env ''GOOGLE_BASE_URL'');
          w2 = (case if_truthy base_url of
                  Some u \<Rightarrow>
                    logger (Log WARNING ''Note: Google/Gemini API does not support custom base URLs in pydantic-ai. This setting will be ignored.'')
                      (logger (Log INFO (''Using custom Google base URL: '' @ u)) w1)
                | None \<Rightarrow> w1);
          api_key = py_or (py_or (google_api_key settings) (env ''GOOGLE_API_KEY''))
                      (env ''GEMINI_API_KEY'');
          r = (case if_truthy api_key of
                 None \<Rightarrow>
                   Inl (ConfigurationException ''Google API key not found'' ''google_api_key''
                          [(''model_name'', gemini_model_name settings)])
               | Some k \<Rightarrow>
                   and_then (construct (provider_raises sdk) (GoogleProvider_api_key k)) (\<lambda>provider.
                   construct (model_raises sdk) (GoogleModel (gemini_model_name settings) provider)))
      in case r of
           Inr m \<Rightarrow> (Inr m, w2)
         | Inl e \<Rightarrow>
             (Inl (AIProviderException ''Failed to initialize Google model'' ''google''
                     (gemini_model_name settings) e),
              logger (LogExn ERROR ''Failed to initialize Google model: '' e) w2))"

text \<open>OpenRouter always builds an OpenAI-compatible client on the configured base URL.\<close>

definition get_openrouter_model :: "settings \<Rightarrow> sdk \<Rightarrow> environ \<Rightarrow> world \<Rightarrow> (exn + model) \<times> world" where
  "get_openrouter_model loaded sdk env w0 =
     (let (settings, w1) = get_settings loaded w0;
          base_url = openrouter_base_url settings;
          w2 = logger (Log INFO (''Using OpenRouter base URL: '' @ base_url)) w1;
          api_key = py_or (openrouter_api_key settings) (env ''OPENROUTER_API_KEY'');
          r = (case if_truthy api_key of
                 None \<Rightarrow>
                   Inl (ConfigurationException ''OpenRouter API key not found'' ''openrouter_api_key''
                          [(''model_name'', openrouter_model_name settings)])
               | Some k \<Rightarrow>
                   and_then (construct (client_raises sdk) (AsyncOpenAI k base_url)) (\<lambda>client.
                   and_then (construct (provider_raises sdk) (OpenAIProvider_openai_client client)) (\<lambda>provider.
                   construct (model_raises sdk) (OpenAIModel (openrouter_model_name settings) provider))))
      in case r of
           Inr m \<Rightarrow> (Inr m, w2)
         | Inl e \<Rightarrow>
             (Inl (AIProviderException ''Failed to initialize OpenRouter model'' ''openrouter''
                     (openrouter_model_name settings) e),
              logger (LogExn ERROR ''Failed to initialize OpenRouter model: '' e) w2))"

subsection \<open>The entry point\<close>

text \<open>
  The list \<open>models\<close> that the \<open>fallback\<close> branch of \<open>get_llm_model\<close> builds: four \<open>if\<close>
  statements in sequence, each appending one model string.
\<close>

definition fallback_models :: "settings \<Rightarrow> environ \<Rightarrow> string list" where
  "fallback_models settings env =
     (let models0 = [];
          models1 = (if truthy (py_or (openai_api_key settings) (env ''OPENAI_API_KEY''))
                     then models0 @ [''openai:'' @ openai_model_name settings] else models0);
          models2 = (if truthy (py_or (anthropic_api_key settings) (env ''ANTHROPIC_API_KEY''))
                     then models1 @ [''anthropic:'' @ anthropic_model_name settings] else models1);
          models3 = (if truthy (py_or (py_or (google_api_key settings) (env ''GOOGLE_API_KEY''))
                                  (env ''GEMINI_API_KEY''))
                     then models2 @ [''google-gla:'' @ gemini_model_name settings] else models2);
          models4 = (if truthy (py_or (openrouter_api_key settings) (env ''OPENROUTER_API_KEY''))
                     then models3 @ [''openrouter:'' @ openrouter_model_name settings] else models3)
      in models4)"

text \<open>The message of the warning for an unknown identifier.\<close>

definition unknown_model_warning :: "string \<Rightarrow> log_record" where
  "unknown_model_warning model_name =
     Log WARNING (''Unknown model name '' @ [CHR 0x27] @ model_name @ [CHR 0x27]
                  @ '', defaulting to OpenAI'')"

text \<open>
  \<open>model_name = model_name or settings.ai_model\<close>: an absent or empty argument is replaced
  by the configured default.
\<close>

definition effective_model_name :: "settings \<Rightarrow> string option \<Rightarrow> string" where
  "effective_model_name settings model_name =
     (case if_truthy model_name of Some n \<Rightarrow> n | None \<Rightarrow> ai_model settings)"

definition get_llm_model ::
  "settings \<Rightarrow> sdk \<Rightarrow> environ \<Rightarrow> string option \<Rightarrow> world \<Rightarrow> (exn + model) \<times> world" where
  "get_llm_model loaded sdk env model_name_arg w0 =
     (let (settings, w1) = get_settings loaded w0;
          model_name = effective_model_name settings model_name_arg
      in if startswith model_name ''openai:'' then get_openai_model loaded sdk env w1
         else if startswith model_name ''anthropic:'' then get_anthropic_model loaded sdk env w1
         else if startswith model_name ''gemini:'' then get_google_model loaded sdk env w1
         else if startswith model_name ''openrouter:'' then get_openrouter_model loaded sdk env w1
         else if model_name = ''fallback'' then
           (case fallback_models settings env of
              [] \<Rightarrow>
                (Inl (ConfigurationException ''No LLM providers configured for fallback model''
                        ''ai_model'' [(''requested_model'', model_name)]), w1)
            | primary_model # rest \<Rightarrow>
                (construct (model_raises sdk) (FallbackModel primary_model rest), w1))
         else get_openai_model loaded sdk env (logger (unknown_model_warning model_name) w1))"

subsection \<open>Notions used in the statements\<close>

text \<open>The settings object \<open>get_settings\<close> returns in a given state.\<close>

definition current_settings :: "settings \<Rightarrow> world \<Rightarrow> settings" where
  "current_settings loaded w = (case settings_global w of None \<Rightarrow> loaded | Some s \<Rightarrow> s)"

text \<open>The state in which the singleton holds \<open>s\<close> and nothing has been logged.\<close>

definition base_world :: "settings \<Rightarrow> world" where
  "base_world s = \<lparr>settings_global = Some s, log_records = []\<rparr>"

text \<open>The state of a fresh process under \<open>TESTING=true\<close>: no singleton yet, empty log.\<close>

definition initial_world :: world where
  "initial_world = \<lparr>settings_global = None, log_records = []\<rparr>"

text \<open>An environment with no variable set, and the one a list of bindings gives.\<close>

definition empty_environ :: environ where
  "empty_environ = map_of []"

definition environ_of :: "(string \<times> string) list \<Rightarrow> environ" where
  "environ_of kvs = map_of kvs"

text \<open>Whether a call raised one of the two error kinds.\<close>

definition raises_ConfigurationError :: "exn + model \<Rightarrow> bool" where
  "raises_ConfigurationError r = (case r of Inl e \<Rightarrow> is_ConfigurationError e | Inr m \<Rightarrow> False)"

definition raises_ProviderInitError :: "exn + model \<Rightarrow> bool" where
  "raises_ProviderInitError r = (case r of Inl e \<Rightarrow> is_ProviderInitError e | Inr m \<Rightarrow> False)"

text \<open>The exceptions the libraries can raise at all.\<close>

definition library_errors :: "sdk \<Rightarrow> exn set" where
  "library_errors sdk =
     ran (client_raises sdk) \<union> ran (provider_raises sdk) \<union> ran (model_raises sdk)"

text \<open>The class of a handle.\<close>

fun handle_class :: "model \<Rightarrow> string" where
  "handle_class (OpenAIModel n p) = ''OpenAIModel''"
| "handle_class (AnthropicModel n p) = ''AnthropicModel''"
| "handle_class (GoogleModel n p) = ''GoogleModel''"
| "handle_class (FallbackModel a bs) = ''FallbackModel''"

text \<open>
  The API-key and base-URL expressions of the source, named for the statements below:
  \<open>settings.openai_api_key or os.getenv("OPENAI_API_KEY")\<close> and its siblings.
\<close>

abbreviation openai_key :: "settings \<Rightarrow> environ \<Rightarrow> string option" where
  "openai_key s env \<equiv> py_or (openai_api_key s) (env ''OPENAI_API_KEY'')"

abbreviation anthropic_key :: "settings \<Rightarrow> environ \<Rightarrow> string option" where
  "anthropic_key s env \<equiv> py_or (anthropic_api_key s) (env ''ANTHROPIC_API_KEY'')"

abbreviation google_key :: "settings \<Rightarrow> environ \<Rightarrow> string option" where
  "google_key s env \<equiv>
     py_or (py_or (google_api_key s) (env ''GOOGLE_API_KEY'')) (env ''GEMINI_API_KEY'')"

abbreviation openrouter_key :: "settings \<Rightarrow> environ \<Rightarrow> string option" where
  "openrouter_key s env \<equiv> py_or (openrouter_api_key s) (env ''OPENROUTER_API_KEY'')"

abbreviation openai_url :: "settings \<Rightarrow> environ \<Rightarrow> string option" where
  "openai_url s env \<equiv> py_or (openai_base_url s) (env ''OPENAI_BASE_URL'')"

abbreviation anthropic_url :: "settings \<Rightarrow> environ \<Rightarrow> string option" where
  "anthropic_url s env \<equiv> py_or (anthropic_base_url s) (env ''ANTHROPIC_BASE_URL'')"

abbreviation google_url :: "settings \<Rightarrow> environ \<Rightarrow> string option" where
  "google_url s env \<equiv> py_or (google_base_url s) (env ''GOOGLE_BASE_URL'')"

text \<open>The exceptions the source raises, with their arguments.\<close>

definition openai_key_missing :: "settings \<Rightarrow> exn" where
  "openai_key_missing s =
     ConfigurationException ''OpenAI API key not found'' ''openai_api_key''
       [(''model_name'', openai_model_name s)]"

definition anthropic_key_missing :: "settings \<Rightarrow> exn" where
  "anthropic_key_missing s =
     ConfigurationException ''Anthropic API key not found'' ''anthropic_api_key''
       [(''model_name'', anthropic_model_name s)]"

definition google_key_missing :: "settings \<Rightarrow> exn" where
  "google_key_missing s =
     ConfigurationException ''Google API key not found'' ''google_api_key''
       [(''model_name'', gemini_model_name s)]"

definition openrouter_key_missing :: "settings \<Rightarrow> exn" where
  "openrouter_key_missing s =
     ConfigurationException ''OpenRouter API key not found'' ''openrouter_api_key''
       [(''model_name'', openrouter_model_name s)]"

definition openai_init_failed :: "settings \<Rightarrow> exn \<Rightarrow> exn" where
  "openai_init_failed s e =
     AIProviderException ''Failed to initialize OpenAI model'' ''openai'' (openai_model_name s) e"

definition anthropic_init_failed :: "settings \<Rightarrow> exn \<Rightarrow> exn" where
  "anthropic_init_failed s e =
     AIProviderException ''Failed to initialize Anthropic model'' ''anthropic''
       (anthropic_model_name s) e"

definition google_init_failed :: "settings \<Rightarrow> exn \<Rightarrow> exn" where
  "google_init_failed s e =
     AIProviderException ''Failed to initialize Google model'' ''google'' (gemini_model_name s) e"

definition openrouter_init_failed :: "settings \<Rightarrow> exn \<Rightarrow> exn" where
  "openrouter_init_failed s e =
     AIProviderException ''Failed to initialize OpenRouter model'' ''openrouter''
       (openrouter_model_name s) e"

definition no_fallback_providers :: exn where
  "no_fallback_providers =
     ConfigurationException ''No LLM providers configured for fallback model'' ''ai_model''
       [(''requested_model'', ''fallback'')]"

subsection \<open>The fallback chain as the specification words it\<close>

text \<open>
  The provider tags in their fixed priority order, the test for a usable credential, the
  tag written into a chain entry and the configured model name, following sections 3 and
  4.4 of the specification; \<open>spec_fallback_chain\<close> is compared with the list the code
  builds.
\<close>

datatype provider_tag = Openai | Anthropic | Google | Openrouter

definition priority_order :: "provider_tag list" where
  "priority_order = [Openai, Anthropic, Google, Openrouter]"

fun has_api_key :: "settings \<Rightarrow> environ \<Rightarrow> provider_tag \<Rightarrow> bool" where
  "has_api_key s env Openai = (truthy (openai_api_key s) \<or> truthy (env ''OPENAI_API_KEY''))"
| "has_api_key s env Anthropic =
     (truthy (anthropic_api_key s) \<or> truthy (env ''ANTHROPIC_API_KEY''))"
| "has_api_key s env Google =
     (truthy (google_api_key s) \<or> truthy (env ''GOOGLE_API_KEY'')
      \<or> truthy (env ''GEMINI_API_KEY''))"
| "has_api_key s env Openrouter =
     (truthy (openrouter_api_key s) \<or> truthy (env ''OPENROUTER_API_KEY''))"

fun wire_tag :: "provider_tag \<Rightarrow> string" where
  "wire_tag Openai = ''openai''"
| "wire_tag Anthropic = ''anthropic''"
| "wire_tag Google = ''google-gla''"
| "wire_tag Openrouter = ''openrouter''"

fun configured_model_name :: "settings \<Rightarrow> provider_tag \<Rightarrow> string" where
  "configured_model_name s Openai = openai_model_name s"
| "configured_model_name s Anthropic = anthropic_model_name s"
| "configured_model_name s Google = gemini_model_name s"
| "configured_model_name s Openrouter = openrouter_model_name s"

definition chain_entry :: "settings \<Rightarrow> provider_tag \<Rightarrow> string" where
  "chain_entry s p = wire_tag p @ '':'' @ configured_model_name s p"

definition spec_fallback_chain :: "settings \<Rightarrow> environ \<Rightarrow> string list" where
  "spec_fallback_chain s env = map (chain_entry s) (filter (has_api_key s env) priority_order)"

section \<open>Properties\<close>

subsection \<open>State, truthiness and the library parameter\<close>

lemma get_settings_eq:
  "get_settings loaded w =
     (current_settings loaded w, w\<lparr>settings_global := Some (current_settings loaded w)\<rparr>)"
  by (cases "settings_global w") (simp_all add: get_settings_def current_settings_def)

lemma current_settings_simps [simp]:
  "current_settings loaded (w\<lparr>settings_global := Some s\<rparr>) = s"
  "current_settings loaded (logger r w) = current_settings loaded w"
  "current_settings loaded (w\<lparr>log_records := l\<rparr>) = current_settings loaded w"
  by (simp_all add: current_settings_def logger_def)

lemma base_world_simps [simp]:
  "current_settings loaded (base_world s) = s"
  "settings_global (base_world s) = Some s"
  "log_records (base_world s) = []"
  "(base_world s)\<lparr>settings_global := Some s\<rparr> = base_world s"
  by (simp_all add: current_settings_def base_world_def)

lemma initial_world_simps [simp]:
  "current_settings loaded initial_world = loaded"
  "settings_global initial_world = None"
  "log_records initial_world = []"
  by (simp_all add: current_settings_def initial_world_def)

lemma truthy_simps [simp]:
  "truthy None = False"
  "truthy (Some x) = (x \<noteq> [])"
  by (simp_all add: truthy_def)

lemma truthy_py_or: "truthy (py_or a b) = (truthy a \<or> truthy b)"
  by (simp add: py_or_def)

lemma py_or_truthy: "truthy a \<Longrightarrow> py_or a b = a"
  by (simp add: py_or_def)

lemma py_or_falsy: "\<not> truthy a \<Longrightarrow> py_or a b = b"
  by (simp add: py_or_def)

lemma if_truthy_cases [case_names falsy truthy]:
  obtains "\<not> truthy v" "if_truthy v = None"
  | k where "truthy v" "v = Some k" "k \<noteq> []" "if_truthy v = Some k"
  by (cases v) (auto simp: if_truthy_def truthy_def)

lemma if_truthy_falsy: "\<not> truthy v \<Longrightarrow> if_truthy v = None"
  by (cases v) (auto simp: if_truthy_def truthy_def)

lemma if_truthy_simps [simp]:
  "if_truthy None = None"
  "if_truthy (Some x) = (if x = [] then None else Some x)"
  by (simp_all add: if_truthy_def)

lemma and_then_simps [simp]:
  "and_then (Inl e) f = Inl e"
  "and_then (Inr x) f = f x"
  by (simp_all add: and_then_def)

lemma construct_ok [simp]:
  "construct (client_raises sdk_ok) c = Inr c"
  "construct (provider_raises sdk_ok) p = Inr p"
  "construct (model_raises sdk_ok) m = Inr m"
  by (simp_all add: construct_def sdk_ok_def)

lemma construct_broken [simp]:
  "construct (client_raises sdk_broken) c = Inl (LibraryError ''client'')"
  "construct (provider_raises sdk_broken) p = Inl (LibraryError ''provider'')"
  "construct (model_raises sdk_broken) m = Inl (LibraryError ''model'')"
  by (simp_all add: construct_def sdk_broken_def)

lemma construct_Inl:
  "construct (client_raises sdk) c = Inl e \<Longrightarrow> e \<in> library_errors sdk"
  "construct (provider_raises sdk) p = Inl e \<Longrightarrow> e \<in> library_errors sdk"
  "construct (model_raises sdk) m = Inl e \<Longrightarrow> e \<in> library_errors sdk"
  by (auto simp: construct_def library_errors_def ran_def split: option.splits)

lemma construct_Inr: "construct raises x = Inr y \<Longrightarrow> y = x"
  by (simp add: construct_def split: option.splits)

lemma and_then_Inl:
  "and_then r f = Inl e \<Longrightarrow> r = Inl e \<or> (\<exists>x. r = Inr x \<and> f x = Inl e)"
  by (cases r) simp_all

lemma raises_simps [simp]:
  "raises_ConfigurationError (Inr m) = False"
  "raises_ProviderInitError (Inr m) = False"
  "raises_ConfigurationError (Inl e) = is_ConfigurationError e"
  "raises_ProviderInitError (Inl e) = is_ProviderInitError e"
  by (simp_all add: raises_ConfigurationError_def raises_ProviderInitError_def)

lemma environ_simps [simp]:
  "empty_environ n = None"
  "environ_of [] n = None"
  "environ_of ((k, v) # kvs) n = (if n = k then Some v else environ_of kvs n)"
  by (simp_all add: empty_environ_def environ_of_def)

subsection \<open>The OpenAI factory\<close>

lemma openai_no_key:
  assumes "\<not> truthy (openai_key (current_settings loaded w) env)"
  shows "fst (get_openai_model loaded sdk env w) =
           Inl (openai_init_failed (current_settings loaded w)
                  (openai_key_missing (current_settings loaded w)))"
  by (simp add: get_openai_model_def get_settings_eq Let_def if_truthy_falsy[OF assms]
        openai_init_failed_def openai_key_missing_def)

lemma openai_failure:
  assumes key: "truthy (openai_key (current_settings loaded w) env)"
    and fails: "fst (get_openai_model loaded sdk env w) = Inl e"
  shows "\<exists>e'. e = openai_init_failed (current_settings loaded w) e' \<and> e' \<in> library_errors sdk"
proof -
  from key obtain k where k: "if_truthy (openai_key (current_settings loaded w) env) = Some k"
    by (cases "openai_key (current_settings loaded w) env" rule: if_truthy_cases) auto
  show ?thesis
  proof (cases "openai_url (current_settings loaded w) env" rule: if_truthy_cases)
    case falsy
    with k fails show ?thesis
      by (auto simp: get_openai_model_def get_settings_eq Let_def openai_init_failed_def
            split: sum.splits dest!: and_then_Inl dest: construct_Inl)
  next
    case (truthy u)
    with k fails show ?thesis
      by (auto simp: get_openai_model_def get_settings_eq Let_def openai_init_failed_def
            split: sum.splits dest!: and_then_Inl dest: construct_Inl)
  qed
qed

lemma openai_success:
  assumes k: "if_truthy (openai_key (current_settings loaded w) env) = Some k"
  shows "fst (get_openai_model loaded sdk_ok env w) =
           Inr (OpenAIModel (openai_model_name (current_settings loaded w))
                  (case if_truthy (openai_url (current_settings loaded w) env) of
                     None \<Rightarrow> OpenAIProvider_api_key k
                   | Some u \<Rightarrow> OpenAIProvider_openai_client (AsyncOpenAI k u)))"
  by (cases "openai_url (current_settings loaded w) env" rule: if_truthy_cases)
     (simp_all add: get_openai_model_def get_settings_eq Let_def k)

lemma openai_frame:
  "get_openai_model loaded sdk env w =
     (fst (get_openai_model loaded sdk env (base_world (current_settings loaded w))),
      w\<lparr>settings_global := Some (current_settings loaded w),
        log_records := log_records w @
          log_records (snd (get_openai_model loaded sdk env
                              (base_world (current_settings loaded w))))\<rparr>)"
proof (cases "openai_url (current_settings loaded w) env" rule: if_truthy_cases)
  case falsy
  note url = falsy(2)
  show ?thesis
  proof (cases "openai_key (current_settings loaded w) env" rule: if_truthy_cases)
    case falsy
    with url show ?thesis
      by (simp add: get_openai_model_def get_settings_eq Let_def logger_def)
  next
    case (truthy k)
    with url show ?thesis
      by (simp add: get_openai_model_def get_settings_eq Let_def logger_def split: sum.splits)
  qed
next
  case (truthy u)
  note url = truthy(4)
  show ?thesis
  proof (cases "openai_key (current_settings loaded w) env" rule: if_truthy_cases)
    case falsy
    with url show ?thesis
      by (simp add: get_openai_model_def get_settings_eq Let_def logger_def)
  next
    case (truthy k)
    with url show ?thesis
      by (simp add: get_openai_model_def get_settings_eq Let_def logger_def split: sum.splits)
  qed
qed

lemma openai_env_key_ignored:
  assumes "truthy (openai_api_key (current_settings loaded w))"
  shows "get_openai_model loaded sdk (env(''OPENAI_API_KEY'' := v)) w =
         get_openai_model loaded sdk env w"
  by (simp add: get_openai_model_def get_settings_eq Let_def py_or_truthy[OF assms])

subsection \<open>The Anthropic factory\<close>

lemma anthropic_no_key:
  assumes "\<not> truthy (anthropic_key (current_settings loaded w) env)"
  shows "fst (get_anthropic_model loaded sdk env w) =
           Inl (anthropic_init_failed (current_settings loaded w)
                  (anthropic_key_missing (current_settings loaded w)))"
  by (simp add: get_anthropic_model_def get_settings_eq Let_def if_truthy_falsy[OF assms]
        anthropic_init_failed_def anthropic_key_missing_def)

lemma anthropic_failure:
  assumes key: "truthy (anthropic_key (current_settings loaded w) env)"
    and fails: "fst (get_anthropic_model loaded sdk env w) = Inl e"
  shows "\<exists>e'. e = anthropic_init_failed (current_settings loaded w) e' \<and> e' \<in> library_errors sdk"
proof -
  from key obtain k where k: "if_truthy (anthropic_key (current_settings loaded w) env) = Some k"
    by (cases "anthropic_key (current_settings loaded w) env" rule: if_truthy_cases) auto
  show ?thesis
  proof (cases "anthropic_url (current_settings loaded w) env" rule: if_truthy_cases)
    case falsy
    with k fails show ?thesis
      by (auto simp: get_anthropic_model_def get_settings_eq Let_def anthropic_init_failed_def
            split: sum.splits dest!: and_then_Inl dest: construct_Inl)
  next
    case (truthy u)
    with k fails show ?thesis
      by (auto simp: get_anthropic_model_def get_settings_eq Let_def anthropic_init_failed_def
            split: sum.splits dest!: and_then_Inl dest: construct_Inl)
  qed
qed

lemma anthropic_success:
  assumes k: "if_truthy (anthropic_key (current_settings loaded w) env) = Some k"
  shows "fst (get_anthropic_model loaded sdk_ok env w) =
           Inr (AnthropicModel (anthropic_model_name (current_settings loaded w))
                  (case if_truthy (anthropic_url (current_settings loaded w) env) of
                     None \<Rightarrow> AnthropicProvider_api_key k
                   | Some u \<Rightarrow> AnthropicProvider_anthropic_client (AsyncAnthropic k u)))"
  by (cases "anthropic_url (current_settings loaded w) env" rule: if_truthy_cases)
     (simp_all add: get_anthropic_model_def get_settings_eq Let_def k)

lemma anthropic_frame:
  "get_anthropic_model loaded sdk env w =
     (fst (get_anthropic_model loaded sdk env (base_world (current_settings loaded w))),
      w\<lparr>settings_global := Some (current_settings loaded w),
        log_records := log_records w @
          log_records (snd (get_anthropic_model loaded sdk env
                              (base_world (current_settings loaded w))))\<rparr>)"
proof (cases "anthropic_url (current_settings loaded w) env" rule: if_truthy_cases)
  case falsy
  note url = falsy(2)
  show ?thesis
  proof (cases "anthropic_key (current_settings loaded w) env" rule: if_truthy_cases)
    case falsy
    with url show ?thesis
      by (simp add: get_anthropic_model_def get_settings_eq Let_def logger_def)
  next
    case (truthy k)
    with url show ?thesis
      by (simp add: get_anthropic_model_def get_settings_eq Let_def logger_def split: sum.splits)
  qed
next
  case (truthy u)
  note url = truthy(4)
  show ?thesis
  proof (cases "anthropic_key (current_settings loaded w) env" rule: if_truthy_cases)
    case falsy
    with url show ?thesis
      by (simp add: get_anthropic_model_def get_settings_eq Let_def logger_def)
  next
    case (truthy k)
    with url show ?thesis
      by (simp add: get_anthropic_model_def get_settings_eq Let_def logger_def split: sum.splits)
  qed
qed

lemma anthropic_env_key_ignored:
  assumes "truthy (anthropic_api_key (current_settings loaded w))"
  shows "get_anthropic_model loaded sdk (env(''ANTHROPIC_API_KEY'' := v)) w =
         get_anthropic_model loaded sdk env w"
  by (simp add: get_anthropic_model_def get_settings_eq Let_def py_or_truthy[OF assms])

subsection \<open>The Google factory\<close>

lemma google_no_key:
  assumes "\<not> truthy (google_key (current_settings loaded w) env)"
  shows "fst (get_google_model loaded sdk env w) =
           Inl (google_init_failed (current_settings loaded w)
                  (google_key_missing (current_settings loaded w)))"
  by (simp add: get_google_model_def get_settings_eq Let_def if_truthy_falsy[OF assms]
        google_init_failed_def google_key_missing_def)

lemma google_failure:
  assumes key: "truthy (google_key (current_settings loaded w) env)"
    and fails: "fst (get_google_model loaded sdk env w) = Inl e"
  shows "\<exists>e'. e = google_init_failed (current_settings loaded w) e' \<and> e' \<in> library_errors sdk"
proof -
  from key obtain k where k: "if_truthy (google_key (current_settings loaded w) env) = Some k"
    by (cases "google_key (current_settings loaded w) env" rule: if_truthy_cases) auto
  with fails show ?thesis
    by (auto simp: get_google_model_def get_settings_eq Let_def google_init_failed_def
          split: sum.splits dest!: and_then_Inl dest: construct_Inl)
qed

lemma google_success:
  assumes k: "if_truthy (google_key (current_settings loaded w) env) = Some k"
  shows "fst (get_google_model loaded sdk_ok env w) =
           Inr (GoogleModel (gemini_model_name (current_settings loaded w))
                  (GoogleProvider_api_key k))"
  by (simp add: get_google_model_def get_settings_eq Let_def k)

lemma google_frame:
  "get_google_model loaded sdk env w =
     (fst (get_google_model loaded sdk env (base_world (current_settings loaded w))),
      w\<lparr>settings_global := Some (current_settings loaded w),
        log_records := log_records w @
          log_records (snd (get_google_model loaded sdk env
                              (base_world (current_settings loaded w))))\<rparr>)"
proof (cases "google_url (current_settings loaded w) env" rule: if_truthy_cases)
  case falsy
  note url = falsy(2)
  show ?thesis
  proof (cases "google_key (current_settings loaded w) env" rule: if_truthy_cases)
    case falsy
    with url show ?thesis
      by (simp add: get_google_model_def get_settings_eq Let_def logger_def)
  next
    case (truthy k)
    with url show ?thesis
      by (simp add: get_google_model_def get_settings_eq Let_def logger_def split: sum.splits)
  qed
next
  case (truthy u)
  note url = truthy(4)
  show ?thesis
  proof (cases "google_key (current_settings loaded w) env" rule: if_truthy_cases)
    case falsy
    with url show ?thesis
      by (simp add: get_google_model_def get_settings_eq Let_def logger_def)
  next
    case (truthy k)
    with url show ?thesis
      by (simp add: get_google_model_def get_settings_eq Let_def logger_def split: sum.splits)
  qed
qed

lemma google_env_keys_ignored:
  assumes "truthy (google_api_key (current_settings loaded w))"
  shows "get_google_model loaded sdk (env(''GOOGLE_API_KEY'' := v, ''GEMINI_API_KEY'' := v')) w =
         get_google_model loaded sdk env w"
  by (simp add: get_google_model_def get_settings_eq Let_def py_or_truthy[OF assms])

lemma google_env_gemini_ignored:
  assumes "truthy (env ''GOOGLE_API_KEY'')"
  shows "get_google_model loaded sdk (env(''GEMINI_API_KEY'' := v)) w =
         get_google_model loaded sdk env w"
proof (cases "truthy (google_api_key (current_settings loaded w))")
  case True
  then show ?thesis
    by (simp add: get_google_model_def get_settings_eq Let_def py_or_truthy)
next
  case False
  with assms show ?thesis
    by (simp add: get_google_model_def get_settings_eq Let_def py_or_truthy py_or_falsy)
qed

text \<open>
  The result of the Google factory is the same whatever the base-URL setting and the
  \<open>GOOGLE_BASE_URL\<close> variable are: only the log differs.
\<close>

lemma google_base_url_ignored:
  assumes "current_settings loaded' w' = (current_settings loaded w)\<lparr>google_base_url := b\<rparr>"
  shows "fst (get_google_model loaded' sdk (env(''GOOGLE_BASE_URL'' := v)) w') =
         fst (get_google_model loaded sdk env w)"
proof -
  have key: "google_key (current_settings loaded' w') (env(''GOOGLE_BASE_URL'' := v)) =
             google_key (current_settings loaded w) env"
    by (simp add: assms)
  show ?thesis
  proof (cases "google_key (current_settings loaded w) env" rule: if_truthy_cases)
    case falsy
    then show ?thesis
      using google_no_key[of loaded w env sdk]
        google_no_key[of loaded' w' "env(''GOOGLE_BASE_URL'' := v)" sdk] key
      by (simp add: assms google_init_failed_def google_key_missing_def)
  next
    case (truthy k)
    then have k': "if_truthy (google_key (current_settings loaded' w')
                     (env(''GOOGLE_BASE_URL'' := v))) = Some k"
      using key by simp
    from truthy(4) k' show ?thesis
      by (simp add: get_google_model_def get_settings_eq Let_def assms split: sum.splits)
  qed
qed

lemma google_override_logged:
  assumes "if_truthy (google_url (current_settings loaded w) env) = Some u"
  shows "\<exists>rest. log_records (snd (get_google_model loaded sdk env w)) =
           log_records w @
           [Log INFO (''Using custom Google base URL: '' @ u),
            Log WARNING ''Note: Google/Gemini API does not support custom base URLs in pydantic-ai. This setting will be ignored.'']
           @ rest"
  by (cases "google_key (current_settings loaded w) env" rule: if_truthy_cases)
     (simp_all add: get_google_model_def get_settings_eq Let_def logger_def assms
        split: sum.splits)

subsection \<open>The OpenRouter factory\<close>

lemma openrouter_no_key:
  assumes "\<not> truthy (openrouter_key (current_settings loaded w) env)"
  shows "fst (get_openrouter_model loaded sdk env w) =
           Inl (openrouter_init_failed (current_settings loaded w)
                  (openrouter_key_missing (current_settings loaded w)))"
  by (simp add: get_openrouter_model_def get_settings_eq Let_def if_truthy_falsy[OF assms]
        openrouter_init_failed_def openrouter_key_missing_def)

lemma openrouter_failure:
  assumes key: "truthy (openrouter_key (current_settings loaded w) env)"
    and fails: "fst (get_openrouter_model loaded sdk env w) = Inl e"
  shows "\<exists>e'. e = openrouter_init_failed (current_settings loaded w) e' \<and> e' \<in> library_errors sdk"
proof -
  from key obtain k where k: "if_truthy (openrouter_key (current_settings loaded w) env) = Some k"
    by (cases "openrouter_key (current_settings loaded w) env" rule: if_truthy_cases) auto
  with fails show ?thesis
    by (auto simp: get_openrouter_model_def get_settings_eq Let_def openrouter_init_failed_def
          split: sum.splits dest!: and_then_Inl dest: construct_Inl)
qed

lemma openrouter_success:
  assumes k: "if_truthy (openrouter_key (current_settings loaded w) env) = Some k"
  shows "fst (get_openrouter_model loaded sdk_ok env w) =
           Inr (OpenAIModel (openrouter_model_name (current_settings loaded w))
                  (OpenAIProvider_openai_client
                     (AsyncOpenAI k (openrouter_base_url (current_settings loaded w)))))"
  by (simp add: get_openrouter_model_def get_settings_eq Let_def k)

lemma openrouter_frame:
  "get_openrouter_model loaded sdk env w =
     (fst (get_openrouter_model loaded sdk env (base_world (current_settings loaded w))),
      w\<lparr>settings_global := Some (current_settings loaded w),
        log_records := log_records w @
          log_records (snd (get_openrouter_model loaded sdk env
                              (base_world (current_settings loaded w))))\<rparr>)"
proof (cases "openrouter_key (current_settings loaded w) env" rule: if_truthy_cases)
  case falsy
  then show ?thesis
    by (simp add: get_openrouter_model_def get_settings_eq Let_def logger_def)
next
  case (truthy k)
  then show ?thesis
    by (simp add: get_openrouter_model_def get_settings_eq Let_def logger_def split: sum.splits)
qed

lemma openrouter_env_key_ignored:
  assumes "truthy (openrouter_api_key (current_settings loaded w))"
  shows "get_openrouter_model loaded sdk (env(''OPENROUTER_API_KEY'' := v)) w =
         get_openrouter_model loaded sdk env w"
  by (simp add: get_openrouter_model_def get_settings_eq Let_def py_or_truthy[OF assms])

subsection \<open>Dispatch in the entry point\<close>

lemma startswith_literal [simp]:
  "startswith [] (c # p) = False"
  "startswith (d # n) (c # p) = (c = d \<and> startswith n p)"
  "startswith n [] = True"
  by (auto simp: startswith_def)

lemma prefix_clash:
  "startswith n ''anthropic:'' \<Longrightarrow> \<not> startswith n ''openai:''"
  "startswith n ''gemini:'' \<Longrightarrow> \<not> startswith n ''openai:'' \<and> \<not> startswith n ''anthropic:''"
  "startswith n ''openrouter:'' \<Longrightarrow>
     \<not> startswith n ''openai:'' \<and> \<not> startswith n ''anthropic:'' \<and> \<not> startswith n ''gemini:''"
  by (auto simp: startswith_def prefix_def)

lemma effective_model_name_simps [simp]:
  "effective_model_name s None = ai_model s"
  "effective_model_name s (Some n) = (if n = [] then ai_model s else n)"
  by (simp_all add: effective_model_name_def)

lemma llm_openai:
  assumes "startswith (effective_model_name (current_settings loaded w) arg) ''openai:''"
  shows "get_llm_model loaded sdk env arg w =
         get_openai_model loaded sdk env (w\<lparr>settings_global := Some (current_settings loaded w)\<rparr>)"
  using assms by (simp add: get_llm_model_def get_settings_eq Let_def)

lemma llm_anthropic:
  assumes "startswith (effective_model_name (current_settings loaded w) arg) ''anthropic:''"
  shows "get_llm_model loaded sdk env arg w =
         get_anthropic_model loaded sdk env (w\<lparr>settings_global := Some (current_settings loaded w)\<rparr>)"
  using assms prefix_clash(1)[OF assms] by (simp add: get_llm_model_def get_settings_eq Let_def)

lemma llm_gemini:
  assumes "startswith (effective_model_name (current_settings loaded w) arg) ''gemini:''"
  shows "get_llm_model loaded sdk env arg w =
         get_google_model loaded sdk env (w\<lparr>settings_global := Some (current_settings loaded w)\<rparr>)"
  using assms prefix_clash(2)[OF assms] by (simp add: get_llm_model_def get_settings_eq Let_def)

lemma llm_openrouter:
  assumes "startswith (effective_model_name (current_settings loaded w) arg) ''openrouter:''"
  shows "get_llm_model loaded sdk env arg w =
         get_openrouter_model loaded sdk env (w\<lparr>settings_global := Some (current_settings loaded w)\<rparr>)"
  using assms prefix_clash(3)[OF assms] by (simp add: get_llm_model_def get_settings_eq Let_def)

lemma llm_fallback:
  assumes "effective_model_name (current_settings loaded w) arg = ''fallback''"
  shows "get_llm_model loaded sdk env arg w =
         (case fallback_models (current_settings loaded w) env of
            [] \<Rightarrow> (Inl no_fallback_providers,
                   w\<lparr>settings_global := Some (current_settings loaded w)\<rparr>)
          | primary # rest \<Rightarrow>
              (construct (model_raises sdk) (FallbackModel primary rest),
               w\<lparr>settings_global := Some (current_settings loaded w)\<rparr>))"
  by (simp add: get_llm_model_def get_settings_eq Let_def assms no_fallback_providers_def
        split: list.splits)

lemma llm_default:
  assumes "\<not> startswith (effective_model_name (current_settings loaded w) arg) ''openai:''"
    and "\<not> startswith (effective_model_name (current_settings loaded w) arg) ''anthropic:''"
    and "\<not> startswith (effective_model_name (current_settings loaded w) arg) ''gemini:''"
    and "\<not> startswith (effective_model_name (current_settings loaded w) arg) ''openrouter:''"
    and "effective_model_name (current_settings loaded w) arg \<noteq> ''fallback''"
  shows "get_llm_model loaded sdk env arg w =
         get_openai_model loaded sdk env
           (logger (unknown_model_warning (effective_model_name (current_settings loaded w) arg))
              (w\<lparr>settings_global := Some (current_settings loaded w)\<rparr>))"
  using assms by (simp add: get_llm_model_def get_settings_eq Let_def)

subsection \<open>The list built on the fallback path\<close>

lemma fallback_models_spec: "fallback_models s env = spec_fallback_chain s env"
  by (simp add: fallback_models_def spec_fallback_chain_def priority_order_def chain_entry_def
        truthy_py_or Let_def)

lemma fallback_models_empty:
  "(fallback_models s env = []) =
     (\<not> has_api_key s env Openai \<and> \<not> has_api_key s env Anthropic \<and>
      \<not> has_api_key s env Google \<and> \<not> has_api_key s env Openrouter)"
  by (simp add: fallback_models_def truthy_py_or Let_def)

subsection \<open>A call only adds to the state\<close>

text \<open>
  The result of a call and the records it logs depend on the state only through the
  settings in force; the call leaves the singleton initialised with them.
\<close>

lemma llm_frame:
  "get_llm_model loaded sdk env arg w =
     (fst (get_llm_model loaded sdk env arg (base_world (current_settings loaded w))),
      w\<lparr>settings_global := Some (current_settings loaded w),
        log_records := log_records w @
          log_records (snd (get_llm_model loaded sdk env arg
                              (base_world (current_settings loaded w))))\<rparr>)"
proof -
  define s where "s = current_settings loaded w"
  define n where "n = effective_model_name s arg"
  consider (openai) "startswith n ''openai:''"
    | (anthropic) "startswith n ''anthropic:''"
    | (gemini) "startswith n ''gemini:''"
    | (openrouter) "startswith n ''openrouter:''"
    | (fallback) "n = ''fallback''"
    | (unknown) "\<not> startswith n ''openai:''" "\<not> startswith n ''anthropic:''"
        "\<not> startswith n ''gemini:''" "\<not> startswith n ''openrouter:''" "n \<noteq> ''fallback''"
    by blast
  then have "get_llm_model loaded sdk env arg w =
     (fst (get_llm_model loaded sdk env arg (base_world s)),
      w\<lparr>settings_global := Some s,
        log_records := log_records w @
          log_records (snd (get_llm_model loaded sdk env arg (base_world s)))\<rparr>)"
  proof cases
    case openai
    then have a: "startswith (effective_model_name (current_settings loaded w) arg) ''openai:''"
      and b: "startswith (effective_model_name (current_settings loaded (base_world s)) arg) ''openai:''"
      by (simp_all add: n_def s_def)
    have gw: "get_llm_model loaded sdk env arg w =
              get_openai_model loaded sdk env (w\<lparr>settings_global := Some s\<rparr>)"
      using llm_openai[OF a] by (simp add: s_def)
    have gb: "get_llm_model loaded sdk env arg (base_world s) =
              get_openai_model loaded sdk env (base_world s)"
      using llm_openai[OF b] by simp
    have fr: "get_openai_model loaded sdk env (w\<lparr>settings_global := Some s\<rparr>) =
              (fst (get_openai_model loaded sdk env (base_world s)),
               w\<lparr>settings_global := Some s,
                 log_records := log_records w @
                   log_records (snd (get_openai_model loaded sdk env (base_world s)))\<rparr>)"
      using openai_frame[of loaded sdk env "w\<lparr>settings_global := Some s\<rparr>"] by simp
    show ?thesis
      unfolding gw gb fr by simp
  next
    case anthropic
    then have a: "startswith (effective_model_name (current_settings loaded w) arg) ''anthropic:''"
      and b: "startswith (effective_model_name (current_settings loaded (base_world s)) arg) ''anthropic:''"
      by (simp_all add: n_def s_def)
    have gw: "get_llm_model loaded sdk env arg w =
              get_anthropic_model loaded sdk env (w\<lparr>settings_global := Some s\<rparr>)"
      using llm_anthropic[OF a] by (simp add: s_def)
    have gb: "get_llm_model loaded sdk env arg (base_world s) =
              get_anthropic_model loaded sdk env (base_world s)"
      using llm_anthropic[OF b] by simp
    have fr: "get_anthropic_model loaded sdk env (w\<lparr>settings_global := Some s\<rparr>) =
              (fst (get_anthropic_model loaded sdk env (base_world s)),
               w\<lparr>settings_global := Some s,
                 log_records := log_records w @
                   log_records (snd (get_anthropic_model loaded sdk env (base_world s)))\<rparr>)"
      using anthropic_frame[of loaded sdk env "w\<lparr>settings_global := Some s\<rparr>"] by simp
    show ?thesis
      unfolding gw gb fr by simp
  next
    case gemini
    then have a: "startswith (effective_model_name (current_settings loaded w) arg) ''gemini:''"
      and b: "startswith (effective_model_name (current_settings loaded (base_world s)) arg) ''gemini:''"
      by (simp_all add: n_def s_def)
    have gw: "get_llm_model loaded sdk env arg w =
              get_google_model loaded sdk env (w\<lparr>settings_global := Some s\<rparr>)"
      using llm_gemini[OF a] by (simp add: s_def)
    have gb: "get_llm_model loaded sdk env arg (base_world s) =
              get_google_model loaded sdk env (base_world s)"
      using llm_gemini[OF b] by simp
    have fr: "get_google_model loaded sdk env (w\<lparr>settings_global := Some s\<rparr>) =
              (fst (get_google_model loaded sdk env (base_world s)),
               w\<lparr>settings_global := Some s,
                 log_records := log_records w @
                   log_records (snd (get_google_model loaded sdk env (base_world s)))\<rparr>)"
      using google_frame[of loaded sdk env "w\<lparr>settings_global := Some s\<rparr>"] by simp
    show ?thesis
      unfolding gw gb fr by simp
  next
    case openrouter
    then have a: "startswith (effective_model_name (current_settings loaded w) arg) ''openrouter:''"
      and b: "startswith (effective_model_name (current_settings loaded (base_world s)) arg) ''openrouter:''"
      by (simp_all add: n_def s_def)
    have gw: "get_llm_model loaded sdk env arg w =
              get_openrouter_model loaded sdk env (w\<lparr>settings_global := Some s\<rparr>)"
      using llm_openrouter[OF a] by (simp add: s_def)
    have gb: "get_llm_model loaded sdk env arg (base_world s) =
              get_openrouter_model loaded sdk env (base_world s)"
      using llm_openrouter[OF b] by simp
    have fr: "get_openrouter_model loaded sdk env (w\<lparr>settings_global := Some s\<rparr>) =
              (fst (get_openrouter_model loaded sdk env (base_world s)),
               w\<lparr>settings_global := Some s,
                 log_records := log_records w @
                   log_records (snd (get_openrouter_model loaded sdk env (base_world s)))\<rparr>)"
      using openrouter_frame[of loaded sdk env "w\<lparr>settings_global := Some s\<rparr>"] by simp
    show ?thesis
      unfolding gw gb fr by simp
  next
    case fallback
    then have a: "effective_model_name (current_settings loaded w) arg = ''fallback''"
      and b: "effective_model_name (current_settings loaded (base_world s)) arg = ''fallback''"
      by (simp_all add: n_def s_def)
    show ?thesis
      unfolding llm_fallback[OF a] llm_fallback[OF b]
      by (simp add: s_def split: list.splits)
  next
    case unknown
    then have a: "\<not> startswith (effective_model_name (current_settings loaded w) arg) ''openai:''"
        "\<not> startswith (effective_model_name (current_settings loaded w) arg) ''anthropic:''"
        "\<not> startswith (effective_model_name (current_settings loaded w) arg) ''gemini:''"
        "\<not> startswith (effective_model_name (current_settings loaded w) arg) ''openrouter:''"
        "effective_model_name (current_settings loaded w) arg \<noteq> ''fallback''"
      and b: "\<not> startswith (effective_model_name (current_settings loaded (base_world s)) arg) ''openai:''"
        "\<not> startswith (effective_model_name (current_settings loaded (base_world s)) arg) ''anthropic:''"
        "\<not> startswith (effective_model_name (current_settings loaded (base_world s)) arg) ''gemini:''"
        "\<not> startswith (effective_model_name (current_settings loaded (base_world s)) arg) ''openrouter:''"
        "effective_model_name (current_settings loaded (base_world s)) arg \<noteq> ''fallback''"
      by (simp_all add: n_def s_def)
    define w1 where "w1 = logger (unknown_model_warning n) (w\<lparr>settings_global := Some s\<rparr>)"
    define b1 where "b1 = logger (unknown_model_warning n) (base_world s)"
    have gw: "get_llm_model loaded sdk env arg w = get_openai_model loaded sdk env w1"
      using llm_default[OF a] by (simp add: s_def n_def w1_def)
    have gb: "get_llm_model loaded sdk env arg (base_world s) = get_openai_model loaded sdk env b1"
      using llm_default[OF b] by (simp add: n_def b1_def)
    have cw: "current_settings loaded w1 = s" and cb: "current_settings loaded b1 = s"
      by (simp_all add: w1_def b1_def)
    have fw: "get_openai_model loaded sdk env w1 =
              (fst (get_openai_model loaded sdk env (base_world s)),
               w1\<lparr>settings_global := Some s,
                 log_records := log_records w1 @
                   log_records (snd (get_openai_model loaded sdk env (base_world s)))\<rparr>)"
      using openai_frame[of loaded sdk env w1] unfolding cw .
    have fb: "get_openai_model loaded sdk env b1 =
              (fst (get_openai_model loaded sdk env (base_world s)),
               b1\<lparr>settings_global := Some s,
                 log_records := log_records b1 @
                   log_records (snd (get_openai_model loaded sdk env (base_world s)))\<rparr>)"
      using openai_frame[of loaded sdk env b1] unfolding cb .
    show ?thesis
      unfolding gw gb fw fb by (simp add: w1_def b1_def logger_def)
  qed
  then show ?thesis
    by (simp add: s_def)
qed

subsection \<open>What a handle built by a factory is bound to\<close>

lemma truthy_Some: "truthy v \<Longrightarrow> \<exists>k. if_truthy v = Some k \<and> v = Some k"
  by (cases v rule: if_truthy_cases) auto

lemma openai_handle:
  assumes "truthy (openai_key (current_settings loaded w) env)"
  shows "\<exists>m. fst (get_openai_model loaded sdk_ok env w) = Inr m \<and>
           handle_class m = ''OpenAIModel'' \<and>
           handle_model_name m = Some (openai_model_name (current_settings loaded w)) \<and>
           handle_api_key m = openai_key (current_settings loaded w) env \<and>
           handle_base_url m = if_truthy (openai_url (current_settings loaded w) env)"
proof -
  from truthy_Some[OF assms] obtain k
    where k: "if_truthy (openai_key (current_settings loaded w) env) = Some k"
      and v: "openai_key (current_settings loaded w) env = Some k"
    by blast
  show ?thesis
    unfolding openai_success[of loaded w env k, OF k] v
    by (simp split: option.splits)
qed

lemma anthropic_handle:
  assumes "truthy (anthropic_key (current_settings loaded w) env)"
  shows "\<exists>m. fst (get_anthropic_model loaded sdk_ok env w) = Inr m \<and>
           handle_class m = ''AnthropicModel'' \<and>
           handle_model_name m = Some (anthropic_model_name (current_settings loaded w)) \<and>
           handle_api_key m = anthropic_key (current_settings loaded w) env \<and>
           handle_base_url m = if_truthy (anthropic_url (current_settings loaded w) env)"
proof -
  from truthy_Some[OF assms] obtain k
    where k: "if_truthy (anthropic_key (current_settings loaded w) env) = Some k"
      and v: "anthropic_key (current_settings loaded w) env = Some k"
    by blast
  show ?thesis
    unfolding anthropic_success[of loaded w env k, OF k] v
    by (simp split: option.splits)
qed

lemma google_handle:
  assumes "truthy (google_key (current_settings loaded w) env)"
  shows "\<exists>m. fst (get_google_model loaded sdk_ok env w) = Inr m \<and>
           handle_class m = ''GoogleModel'' \<and>
           handle_model_name m = Some (gemini_model_name (current_settings loaded w)) \<and>
           handle_api_key m = google_key (current_settings loaded w) env \<and>
           handle_base_url m = None"
proof -
  from truthy_Some[OF assms] obtain k
    where k: "if_truthy (google_key (current_settings loaded w) env) = Some k"
      and v: "google_key (current_settings loaded w) env = Some k"
    by blast
  show ?thesis
    unfolding google_success[of loaded w env k, OF k] v
    by simp
qed

lemma openrouter_handle:
  assumes "truthy (openrouter_key (current_settings loaded w) env)"
  shows "\<exists>m. fst (get_openrouter_model loaded sdk_ok env w) = Inr m \<and>
           handle_class m = ''OpenAIModel'' \<and>
           handle_model_name m = Some (openrouter_model_name (current_settings loaded w)) \<and>
           handle_api_key m = openrouter_key (current_settings loaded w) env \<and>
           handle_base_url m = Some (openrouter_base_url (current_settings loaded w))"
proof -
  from truthy_Some[OF assms] obtain k
    where k: "if_truthy (openrouter_key (current_settings loaded w) env) = Some k"
      and v: "openrouter_key (current_settings loaded w) env = Some k"
    by blast
  show ?thesis
    unfolding openrouter_success[of loaded w env k, OF k] v
    by simp
qed

subsection \<open>Once the singleton exists, what \<open>Settings()\<close> would load is irrelevant\<close>

lemma openai_loaded_irrelevant:
  "settings_global w = Some s \<Longrightarrow>
   get_openai_model loaded sdk env w = get_openai_model loaded' sdk env w"
  by (simp add: get_openai_model_def get_settings_def)

lemma anthropic_loaded_irrelevant:
  "settings_global w = Some s \<Longrightarrow>
   get_anthropic_model loaded sdk env w = get_anthropic_model loaded' sdk env w"
  by (simp add: get_anthropic_model_def get_settings_def)

lemma google_loaded_irrelevant:
  "settings_global w = Some s \<Longrightarrow>
   get_google_model loaded sdk env w = get_google_model loaded' sdk env w"
  by (simp add: get_google_model_def get_settings_def)

lemma openrouter_loaded_irrelevant:
  "settings_global w = Some s \<Longrightarrow>
   get_openrouter_model loaded sdk env w = get_openrouter_model loaded' sdk env w"
  by (simp add: get_openrouter_model_def get_settings_def)

lemma llm_loaded_irrelevant:
  "get_llm_model loaded sdk env arg (base_world s) =
   get_llm_model loaded' sdk env arg (base_world s)"
proof -
  have w: "settings_global (base_world s) = Some s"
    and l: "settings_global (logger r (base_world s)) = Some s" for r
    by (simp_all add: logger_def)
  show ?thesis
    by (simp add: get_llm_model_def get_settings_eq Let_def
          openai_loaded_irrelevant[OF w, of loaded _ _ loaded']
          anthropic_loaded_irrelevant[OF w, of loaded _ _ loaded']
          google_loaded_irrelevant[OF w, of loaded _ _ loaded']
          openrouter_loaded_irrelevant[OF w, of loaded _ _ loaded']
          openai_loaded_irrelevant[OF l, of loaded _ _ _ loaded'])
qed

section \<open>The claims\<close>

subsection \<open>Errors of the provider factories\<close>

text \<open>
  C1, as the code has it: when the resolved API key is empty, each of the four provider
  factories fails with \<open>AIProviderException\<close> whose \<open>original_error\<close> is the
  \<open>ConfigurationException\<close> for that provider's key (the \<open>raise\<close> is inside the \<open>try\<close>
  block, whose catch-all clause wraps it); with a non-empty key a factory fails only by
  wrapping, in the same way, an exception raised by a library constructor.
\<close>

theorem factory_errors:
  assumes s: "s = current_settings loaded w"
  shows "(\<not> truthy (openai_key s env) \<longrightarrow>
            fst (get_openai_model loaded sdk env w) =
              Inl (openai_init_failed s (openai_key_missing s))) \<and>
         (\<not> truthy (anthropic_key s env) \<longrightarrow>
            fst (get_anthropic_model loaded sdk env w) =
              Inl (anthropic_init_failed s (anthropic_key_missing s))) \<and>
         (\<not> truthy (google_key s env) \<longrightarrow>
            fst (get_google_model loaded sdk env w) =
              Inl (google_init_failed s (google_key_missing s))) \<and>
         (\<not> truthy (openrouter_key s env) \<longrightarrow>
            fst (get_openrouter_model loaded sdk env w) =
              Inl (openrouter_init_failed s (openrouter_key_missing s))) \<and>
         (truthy (openai_key s env) \<longrightarrow>
            (\<forall>e. fst (get_openai_model loaded sdk env w) = Inl e \<longrightarrow>
               (\<exists>e'. e = openai_init_failed s e' \<and> e' \<in> library_errors sdk))) \<and>
         (truthy (anthropic_key s env) \<longrightarrow>
            (\<forall>e. fst (get_anthropic_model loaded sdk env w) = Inl e \<longrightarrow>
               (\<exists>e'. e = anthropic_init_failed s e' \<and> e' \<in> library_errors sdk))) \<and>
         (truthy (google_key s env) \<longrightarrow>
            (\<forall>e. fst (get_google_model loaded sdk env w) = Inl e \<longrightarrow>
               (\<exists>e'. e = google_init_failed s e' \<and> e' \<in> library_errors sdk))) \<and>
         (truthy (openrouter_key s env) \<longrightarrow>
            (\<forall>e. fst (get_openrouter_model loaded sdk env w) = Inl e \<longrightarrow>
               (\<exists>e'. e = openrouter_init_failed s e' \<and> e' \<in> library_errors sdk)))"
proof -
  have a: "\<not> truthy (openai_key s env) \<Longrightarrow>
      fst (get_openai_model loaded sdk env w) = Inl (openai_init_failed s (openai_key_missing s))"
    unfolding s by (rule openai_no_key)
  have b: "\<not> truthy (anthropic_key s env) \<Longrightarrow>
      fst (get_anthropic_model loaded sdk env w) =
        Inl (anthropic_init_failed s (anthropic_key_missing s))"
    unfolding s by (rule anthropic_no_key)
  have c: "\<not> truthy (google_key s env) \<Longrightarrow>
      fst (get_google_model loaded sdk env w) = Inl (google_init_failed s (google_key_missing s))"
    unfolding s by (rule google_no_key)
  have d: "\<not> truthy (openrouter_key s env) \<Longrightarrow>
      fst (get_openrouter_model loaded sdk env w) =
        Inl (openrouter_init_failed s (openrouter_key_missing s))"
    unfolding s by (rule openrouter_no_key)
  have a': "truthy (openai_key s env) \<Longrightarrow> fst (get_openai_model loaded sdk env w) = Inl e \<Longrightarrow>
      \<exists>e'. e = openai_init_failed s e' \<and> e' \<in> library_errors sdk" for e
    unfolding s by (rule openai_failure)
  have b': "truthy (anthropic_key s env) \<Longrightarrow> fst (get_anthropic_model loaded sdk env w) = Inl e \<Longrightarrow>
      \<exists>e'. e = anthropic_init_failed s e' \<and> e' \<in> library_errors sdk" for e
    unfolding s by (rule anthropic_failure)
  have c': "truthy (google_key s env) \<Longrightarrow> fst (get_google_model loaded sdk env w) = Inl e \<Longrightarrow>
      \<exists>e'. e = google_init_failed s e' \<and> e' \<in> library_errors sdk" for e
    unfolding s by (rule google_failure)
  have d': "truthy (openrouter_key s env) \<Longrightarrow> fst (get_openrouter_model loaded sdk env w) = Inl e \<Longrightarrow>
      \<exists>e'. e = openrouter_init_failed s e' \<and> e' \<in> library_errors sdk" for e
    unfolding s by (rule openrouter_failure)
  from a b c d a' b' c' d' show ?thesis
    by blast
qed

theorem factory_errors_witness:
  "fst (get_openai_model Settings_defaults sdk_ok empty_environ initial_world) =
     Inl (openai_init_failed Settings_defaults (openai_key_missing Settings_defaults)) \<and>
   fst (get_anthropic_model Settings_defaults sdk_ok empty_environ initial_world) =
     Inl (anthropic_init_failed Settings_defaults (anthropic_key_missing Settings_defaults)) \<and>
   fst (get_google_model Settings_defaults sdk_ok empty_environ initial_world) =
     Inl (google_init_failed Settings_defaults (google_key_missing Settings_defaults)) \<and>
   fst (get_openrouter_model Settings_defaults sdk_ok empty_environ initial_world) =
     Inl (openrouter_init_failed Settings_defaults (openrouter_key_missing Settings_defaults)) \<and>
   fst (get_google_model Settings_defaults sdk_broken
          (environ_of [(''GEMINI_API_KEY'', ''g-key'')]) initial_world) =
     Inl (google_init_failed Settings_defaults (LibraryError ''provider'')) \<and>
   LibraryError ''provider'' \<in> library_errors sdk_broken"
proof -
  have s: "Settings_defaults = current_settings Settings_defaults initial_world"
    by simp
  have keys: "\<not> truthy (openai_key Settings_defaults empty_environ)"
    "\<not> truthy (anthropic_key Settings_defaults empty_environ)"
    "\<not> truthy (google_key Settings_defaults empty_environ)"
    "\<not> truthy (openrouter_key Settings_defaults empty_environ)"
    by (simp_all add: Settings_defaults_def py_or_def)
  have key: "truthy (google_key Settings_defaults (environ_of [(''GEMINI_API_KEY'', ''g-key'')]))"
    by (simp add: Settings_defaults_def py_or_def)
  have run: "fst (get_google_model Settings_defaults sdk_broken
                (environ_of [(''GEMINI_API_KEY'', ''g-key'')]) initial_world) =
             Inl (google_init_failed Settings_defaults (LibraryError ''provider''))"
    by (simp add: get_google_model_def get_settings_eq Let_def Settings_defaults_def py_or_def
          google_init_failed_def)
  have lib: "LibraryError ''provider'' \<in> library_errors sdk_broken"
    by (simp add: library_errors_def sdk_broken_def ran_def)
  from factory_errors[OF s, of empty_environ sdk_ok] keys run lib show ?thesis
    by blast
qed

text \<open>
  C1 as stated does not hold: with no key anywhere, the OpenAI and the Google factory
  raise \<open>AIProviderException\<close>, not \<open>ConfigurationException\<close>, although no library
  constructor failed (none was called).
\<close>

theorem factory_missing_key_counterexample:
  "\<not> raises_ConfigurationError
       (fst (get_openai_model Settings_defaults sdk_ok empty_environ initial_world)) \<and>
   raises_ProviderInitError
       (fst (get_openai_model Settings_defaults sdk_ok empty_environ initial_world)) \<and>
   \<not> raises_ConfigurationError
       (fst (get_google_model Settings_defaults sdk_ok empty_environ initial_world)) \<and>
   raises_ProviderInitError
       (fst (get_google_model Settings_defaults sdk_ok empty_environ initial_world))"
proof -
  have "\<not> truthy (openai_key (current_settings Settings_defaults initial_world) empty_environ)"
    and "\<not> truthy (google_key (current_settings Settings_defaults initial_world) empty_environ)"
    by (simp_all add: Settings_defaults_def py_or_def)
  then show ?thesis
    using openai_no_key[of Settings_defaults initial_world empty_environ sdk_ok]
      google_no_key[of Settings_defaults initial_world empty_environ sdk_ok]
    by (simp add: openai_init_failed_def google_init_failed_def)
qed

subsection \<open>Resolution of a provider identifier\<close>

text \<open>
  C5: for each of the four provider prefixes, when neither the settings field nor the
  provider's environment variable(s) hold a non-empty key, \<open>get_llm_model\<close> fails with
  \<open>ConfigurationException\<close> or \<open>AIProviderException\<close>: it returns no handle and raises no
  other kind of error, whatever the libraries would do.
\<close>

theorem no_credential_fails:
  assumes s: "s = current_settings loaded w"
    and n: "n = effective_model_name s arg"
    and r: "r = fst (get_llm_model loaded sdk env arg w)"
  shows "(startswith n ''openai:'' \<and> \<not> truthy (openai_api_key s) \<and>
            \<not> truthy (env ''OPENAI_API_KEY'') \<longrightarrow>
              raises_ConfigurationError r \<or> raises_ProviderInitError r) \<and>
         (startswith n ''anthropic:'' \<and> \<not> truthy (anthropic_api_key s) \<and>
            \<not> truthy (env ''ANTHROPIC_API_KEY'') \<longrightarrow>
              raises_ConfigurationError r \<or> raises_ProviderInitError r) \<and>
         (startswith n ''gemini:'' \<and> \<not> truthy (google_api_key s) \<and>
            \<not> truthy (env ''GOOGLE_API_KEY'') \<and> \<not> truthy (env ''GEMINI_API_KEY'') \<longrightarrow>
              raises_ConfigurationError r \<or> raises_ProviderInitError r) \<and>
         (startswith n ''openrouter:'' \<and> \<not> truthy (openrouter_api_key s) \<and>
            \<not> truthy (env ''OPENROUTER_API_KEY'') \<longrightarrow>
              raises_ConfigurationError r \<or> raises_ProviderInitError r)"
proof -
  let ?w = "w\<lparr>settings_global := Some s\<rparr>"
  have cur: "current_settings loaded ?w = s"
    by simp
  have a: "raises_ProviderInitError r"
    if "startswith n ''openai:''" "\<not> truthy (openai_api_key s)" "\<not> truthy (env ''OPENAI_API_KEY'')"
  proof -
    from that have "\<not> truthy (openai_key (current_settings loaded ?w) env)"
      by (simp add: truthy_py_or)
    from openai_no_key[of loaded ?w env sdk, OF this] that(1) show ?thesis
      unfolding r using llm_openai[of loaded w arg sdk env]
      by (simp add: s n openai_init_failed_def)
  qed
  have b: "raises_ProviderInitError r"
    if "startswith n ''anthropic:''" "\<not> truthy (anthropic_api_key s)"
      "\<not> truthy (env ''ANTHROPIC_API_KEY'')"
  proof -
    from that have "\<not> truthy (anthropic_key (current_settings loaded ?w) env)"
      by (simp add: truthy_py_or)
    from anthropic_no_key[of loaded ?w env sdk, OF this] that(1) show ?thesis
      unfolding r using llm_anthropic[of loaded w arg sdk env]
      by (simp add: s n anthropic_init_failed_def)
  qed
  have c: "raises_ProviderInitError r"
    if "startswith n ''gemini:''" "\<not> truthy (google_api_key s)"
      "\<not> truthy (env ''GOOGLE_API_KEY'')" "\<not> truthy (env ''GEMINI_API_KEY'')"
  proof -
    from that have "\<not> truthy (google_key (current_settings loaded ?w) env)"
      by (simp add: truthy_py_or)
    from google_no_key[of loaded ?w env sdk, OF this] that(1) show ?thesis
      unfolding r using llm_gemini[of loaded w arg sdk env]
      by (simp add: s n google_init_failed_def)
  qed
  have d: "raises_ProviderInitError r"
    if "startswith n ''openrouter:''" "\<not> truthy (openrouter_api_key s)"
      "\<not> truthy (env ''OPENROUTER_API_KEY'')"
  proof -
    from that have "\<not> truthy (openrouter_key (current_settings loaded ?w) env)"
      by (simp add: truthy_py_or)
    from openrouter_no_key[of loaded ?w env sdk, OF this] that(1) show ?thesis
      unfolding r using llm_openrouter[of loaded w arg sdk env]
      by (simp add: s n openrouter_init_failed_def)
  qed
  from a b c d show ?thesis
    by blast
qed

theorem no_credential_fails_witness:
  "(raises_ConfigurationError
      (fst (get_llm_model Settings_defaults sdk_ok empty_environ (Some ''openai:gpt-4'') initial_world)) \<or>
    raises_ProviderInitError
      (fst (get_llm_model Settings_defaults sdk_ok empty_environ (Some ''openai:gpt-4'') initial_world))) \<and>
   (raises_ConfigurationError
      (fst (get_llm_model Settings_defaults sdk_ok empty_environ (Some ''anthropic:claude-3'') initial_world)) \<or>
    raises_ProviderInitError
      (fst (get_llm_model Settings_defaults sdk_ok empty_environ (Some ''anthropic:claude-3'') initial_world))) \<and>
   (raises_ConfigurationError
      (fst (get_llm_model Settings_defaults sdk_ok empty_environ (Some ''gemini:gemini-pro'') initial_world)) \<or>
    raises_ProviderInitError
      (fst (get_llm_model Settings_defaults sdk_ok empty_environ (Some ''gemini:gemini-pro'') initial_world))) \<and>
   (raises_ConfigurationError
      (fst (get_llm_model Settings_defaults sdk_ok empty_environ (Some ''openrouter:openai/gpt-4o'') initial_world)) \<or>
    raises_ProviderInitError
      (fst (get_llm_model Settings_defaults sdk_ok empty_environ (Some ''openrouter:openai/gpt-4o'') initial_world)))"
proof -
  have s: "Settings_defaults = current_settings Settings_defaults initial_world"
    by simp
  have keys: "\<not> truthy (openai_api_key Settings_defaults)"
    "\<not> truthy (anthropic_api_key Settings_defaults)"
    "\<not> truthy (google_api_key Settings_defaults)"
    "\<not> truthy (openrouter_api_key Settings_defaults)"
    by (simp_all add: Settings_defaults_def)
  from keys
    no_credential_fails[OF s refl refl, of "Some ''openai:gpt-4''" empty_environ sdk_ok]
    no_credential_fails[OF s refl refl, of "Some ''anthropic:claude-3''" empty_environ sdk_ok]
    no_credential_fails[OF s refl refl, of "Some ''gemini:gemini-pro''" empty_environ sdk_ok]
    no_credential_fails[OF s refl refl, of "Some ''openrouter:openai/gpt-4o''" empty_environ sdk_ok]
  show ?thesis
    by simp
qed

text \<open>
  C7: for each of the four provider prefixes, when the settings field or the provider's
  environment variable (for Google either \<open>GOOGLE_API_KEY\<close> or \<open>GEMINI_API_KEY\<close>) holds a
  non-empty key and no library constructor raises, \<open>get_llm_model\<close> returns a handle of
  that provider's class, bound to the model name configured in the settings (whatever
  follows the colon in the identifier) and carrying the resolved key.
\<close>

theorem credential_gives_handle:
  assumes s: "s = current_settings loaded w"
    and n: "n = effective_model_name s arg"
    and r: "r = fst (get_llm_model loaded sdk_ok env arg w)"
  shows "(startswith n ''openai:'' \<and>
            (truthy (openai_api_key s) \<or> truthy (env ''OPENAI_API_KEY'')) \<longrightarrow>
            (\<exists>m. r = Inr m \<and> handle_class m = ''OpenAIModel'' \<and>
                 handle_model_name m = Some (openai_model_name s) \<and>
                 handle_api_key m = openai_key s env)) \<and>
         (startswith n ''anthropic:'' \<and>
            (truthy (anthropic_api_key s) \<or> truthy (env ''ANTHROPIC_API_KEY'')) \<longrightarrow>
            (\<exists>m. r = Inr m \<and> handle_class m = ''AnthropicModel'' \<and>
                 handle_model_name m = Some (anthropic_model_name s) \<and>
                 handle_api_key m = anthropic_key s env)) \<and>
         (startswith n ''gemini:'' \<and>
            (truthy (google_api_key s) \<or> truthy (env ''GOOGLE_API_KEY'') \<or>
             truthy (env ''GEMINI_API_KEY'')) \<longrightarrow>
            (\<exists>m. r = Inr m \<and> handle_class m = ''GoogleModel'' \<and>
                 handle_model_name m = Some (gemini_model_name s) \<and>
                 handle_api_key m = google_key s env)) \<and>
         (startswith n ''openrouter:'' \<and>
            (truthy (openrouter_api_key s) \<or> truthy (env ''OPENROUTER_API_KEY'')) \<longrightarrow>
            (\<exists>m. r = Inr m \<and> handle_class m = ''OpenAIModel'' \<and>
                 handle_model_name m = Some (openrouter_model_name s) \<and>
                 handle_api_key m = openrouter_key s env \<and>
                 handle_base_url m = Some (openrouter_base_url s)))"
proof -
  let ?w = "w\<lparr>settings_global := Some s\<rparr>"
  have a: "\<exists>m. r = Inr m \<and> handle_class m = ''OpenAIModel'' \<and>
             handle_model_name m = Some (openai_model_name s) \<and>
             handle_api_key m = openai_key s env"
    if "startswith n ''openai:''" "truthy (openai_api_key s) \<or> truthy (env ''OPENAI_API_KEY'')"
  proof -
    from that(2) have "truthy (openai_key (current_settings loaded ?w) env)"
      by (simp add: truthy_py_or)
    from openai_handle[of loaded ?w env, OF this] that(1) show ?thesis
      unfolding r using llm_openai[of loaded w arg sdk_ok env]
      by (auto simp: s n)
  qed
  have b: "\<exists>m. r = Inr m \<and> handle_class m = ''AnthropicModel'' \<and>
             handle_model_name m = Some (anthropic_model_name s) \<and>
             handle_api_key m = anthropic_key s env"
    if "startswith n ''anthropic:''"
      "truthy (anthropic_api_key s) \<or> truthy (env ''ANTHROPIC_API_KEY'')"
  proof -
    from that(2) have "truthy (anthropic_key (current_settings loaded ?w) env)"
      by (simp add: truthy_py_or)
    from anthropic_handle[of loaded ?w env, OF this] that(1) show ?thesis
      unfolding r using llm_anthropic[of loaded w arg sdk_ok env]
      by (auto simp: s n)
  qed
  have c: "\<exists>m. r = Inr m \<and> handle_class m = ''GoogleModel'' \<and>
             handle_model_name m = Some (gemini_model_name s) \<and>
             handle_api_key m = google_key s env"
    if "startswith n ''gemini:''"
      "truthy (google_api_key s) \<or> truthy (env ''GOOGLE_API_KEY'') \<or>
       truthy (env ''GEMINI_API_KEY'')"
  proof -
    from that(2) have "truthy (google_key (current_settings loaded ?w) env)"
      by (simp add: truthy_py_or)
    from google_handle[of loaded ?w env, OF this] that(1) show ?thesis
      unfolding r using llm_gemini[of loaded w arg sdk_ok env]
      by (auto simp: s n)
  qed
  have d: "\<exists>m. r = Inr m \<and> handle_class m = ''OpenAIModel'' \<and>
             handle_model_name m = Some (openrouter_model_name s) \<and>
             handle_api_key m = openrouter_key s env \<and>
             handle_base_url m = Some (openrouter_base_url s)"
    if "startswith n ''openrouter:''"
      "truthy (openrouter_api_key s) \<or> truthy (env ''OPENROUTER_API_KEY'')"
  proof -
    from that(2) have "truthy (openrouter_key (current_settings loaded ?w) env)"
      by (simp add: truthy_py_or)
    from openrouter_handle[of loaded ?w env, OF this] that(1) show ?thesis
      unfolding r using llm_openrouter[of loaded w arg sdk_ok env]
      by (auto simp: s n)
  qed
  from a b c d show ?thesis
    by blast
qed

theorem credential_gives_handle_witness:
  "(\<exists>m. fst (get_llm_model Settings_defaults sdk_ok (environ_of [(''OPENAI_API_KEY'', ''test-key'')])
             (Some ''openai:gpt-4'') initial_world) = Inr m \<and>
        handle_model_name m = Some ''gpt-4o'' \<and> handle_api_key m = Some ''test-key'') \<and>
   (\<exists>m. fst (get_llm_model Settings_defaults sdk_ok (environ_of [(''GEMINI_API_KEY'', ''test-key'')])
             (Some ''gemini:gemini-1.5-pro'') initial_world) = Inr m \<and>
        handle_model_name m = Some ''gemini-2.5-pro'' \<and> handle_api_key m = Some ''test-key'')"
proof -
  have s: "Settings_defaults = current_settings Settings_defaults initial_world"
    by simp
  from
    credential_gives_handle[OF s refl refl, of "Some ''openai:gpt-4''"
      "environ_of [(''OPENAI_API_KEY'', ''test-key'')]"]
    credential_gives_handle[OF s refl refl, of "Some ''gemini:gemini-1.5-pro''"
      "environ_of [(''GEMINI_API_KEY'', ''test-key'')]"]
  show ?thesis
    by (auto simp: Settings_defaults_def py_or_def)
qed

subsection \<open>Order of the credential sources\<close>

text \<open>
  C6: every factory takes the API key from the settings field when that is non-empty and
  only otherwise from the environment, and the Google factory tries \<open>GOOGLE_API_KEY\<close>
  before \<open>GEMINI_API_KEY\<close>. With a non-empty configured key the outcome of a factory
  (result and log) is the same whatever the provider's environment variable holds, and
  the handle carries the configured key; with a non-empty \<open>GOOGLE_API_KEY\<close> the outcome of
  the Google factory is the same whatever \<open>GEMINI_API_KEY\<close> holds, and without a
  configured key the handle carries the value of \<open>GOOGLE_API_KEY\<close>.
\<close>

theorem configured_key_preferred:
  assumes s: "s = current_settings loaded w"
  shows "(truthy (openai_api_key s) \<longrightarrow>
            (\<forall>v. get_openai_model loaded sdk (env(''OPENAI_API_KEY'' := v)) w =
                  get_openai_model loaded sdk env w) \<and>
            (\<exists>m. fst (get_openai_model loaded sdk_ok env w) = Inr m \<and>
                  handle_api_key m = openai_api_key s)) \<and>
         (truthy (anthropic_api_key s) \<longrightarrow>
            (\<forall>v. get_anthropic_model loaded sdk (env(''ANTHROPIC_API_KEY'' := v)) w =
                  get_anthropic_model loaded sdk env w) \<and>
            (\<exists>m. fst (get_anthropic_model loaded sdk_ok env w) = Inr m \<and>
                  handle_api_key m = anthropic_api_key s)) \<and>
         (truthy (openrouter_api_key s) \<longrightarrow>
            (\<forall>v. get_openrouter_model loaded sdk (env(''OPENROUTER_API_KEY'' := v)) w =
                  get_openrouter_model loaded sdk env w) \<and>
            (\<exists>m. fst (get_openrouter_model loaded sdk_ok env w) = Inr m \<and>
                  handle_api_key m = openrouter_api_key s)) \<and>
         (truthy (google_api_key s) \<longrightarrow>
            (\<forall>v v'. get_google_model loaded sdk
                       (env(''GOOGLE_API_KEY'' := v, ''GEMINI_API_KEY'' := v')) w =
                     get_google_model loaded sdk env w) \<and>
            (\<exists>m. fst (get_google_model loaded sdk_ok env w) = Inr m \<and>
                  handle_api_key m = google_api_key s)) \<and>
         (truthy (env ''GOOGLE_API_KEY'') \<longrightarrow>
            (\<forall>v. get_google_model loaded sdk (env(''GEMINI_API_KEY'' := v)) w =
                  get_google_model loaded sdk env w)) \<and>
         (\<not> truthy (google_api_key s) \<and> truthy (env ''GOOGLE_API_KEY'') \<longrightarrow>
            (\<exists>m. fst (get_google_model loaded sdk_ok env w) = Inr m \<and>
                  handle_api_key m = env ''GOOGLE_API_KEY'')) \<and>
         (\<not> truthy (google_api_key s) \<and> \<not> truthy (env ''GOOGLE_API_KEY'') \<and>
          truthy (env ''GEMINI_API_KEY'') \<longrightarrow>
            (\<exists>m. fst (get_google_model loaded sdk_ok env w) = Inr m \<and>
                  handle_api_key m = env ''GEMINI_API_KEY'')) \<and>
         (\<not> truthy (openai_api_key s) \<and> truthy (env ''OPENAI_API_KEY'') \<longrightarrow>
            (\<exists>m. fst (get_openai_model loaded sdk_ok env w) = Inr m \<and>
                  handle_api_key m = env ''OPENAI_API_KEY'')) \<and>
         (\<not> truthy (anthropic_api_key s) \<and> truthy (env ''ANTHROPIC_API_KEY'') \<longrightarrow>
            (\<exists>m. fst (get_anthropic_model loaded sdk_ok env w) = Inr m \<and>
                  handle_api_key m = env ''ANTHROPIC_API_KEY'')) \<and>
         (\<not> truthy (openrouter_api_key s) \<and> truthy (env ''OPENROUTER_API_KEY'') \<longrightarrow>
            (\<exists>m. fst (get_openrouter_model loaded sdk_ok env w) = Inr m \<and>
                  handle_api_key m = env ''OPENROUTER_API_KEY''))"
proof -
  have a: "(\<forall>v. get_openai_model loaded sdk (env(''OPENAI_API_KEY'' := v)) w =
                get_openai_model loaded sdk env w) \<and>
           (\<exists>m. fst (get_openai_model loaded sdk_ok env w) = Inr m \<and>
                handle_api_key m = openai_api_key s)"
    if t: "truthy (openai_api_key s)"
  proof -
    from t have "truthy (openai_key (current_settings loaded w) env)"
      by (simp add: s truthy_py_or)
    from openai_handle[of loaded w env, OF this] t have "\<exists>m. fst (get_openai_model loaded sdk_ok env w) = Inr m \<and>
        handle_api_key m = openai_api_key s"
      by (auto simp: s py_or_truthy)
    with t show ?thesis
      by (simp add: s openai_env_key_ignored)
  qed
  have b: "(\<forall>v. get_anthropic_model loaded sdk (env(''ANTHROPIC_API_KEY'' := v)) w =
                get_anthropic_model loaded sdk env w) \<and>
           (\<exists>m. fst (get_anthropic_model loaded sdk_ok env w) = Inr m \<and>
                handle_api_key m = anthropic_api_key s)"
    if t: "truthy (anthropic_api_key s)"
  proof -
    from t have "truthy (anthropic_key (current_settings loaded w) env)"
      by (simp add: s truthy_py_or)
    from anthropic_handle[of loaded w env, OF this] t
    have "\<exists>m. fst (get_anthropic_model loaded sdk_ok env w) = Inr m \<and>
        handle_api_key m = anthropic_api_key s"
      by (auto simp: s py_or_truthy)
    with t show ?thesis
      by (simp add: s anthropic_env_key_ignored)
  qed
  have c: "(\<forall>v. get_openrouter_model loaded sdk (env(''OPENROUTER_API_KEY'' := v)) w =
                get_openrouter_model loaded sdk env w) \<and>
           (\<exists>m. fst (get_openrouter_model loaded sdk_ok env w) = Inr m \<and>
                handle_api_key m = openrouter_api_key s)"
    if t: "truthy (openrouter_api_key s)"
  proof -
    from t have "truthy (openrouter_key (current_settings loaded w) env)"
      by (simp add: s truthy_py_or)
    from openrouter_handle[of loaded w env, OF this] t
    have "\<exists>m. fst (get_openrouter_model loaded sdk_ok env w) = Inr m \<and>
        handle_api_key m = openrouter_api_key s"
      by (auto simp: s py_or_truthy)
    with t show ?thesis
      by (simp add: s openrouter_env_key_ignored)
  qed
  have d: "(\<forall>v v'. get_google_model loaded sdk
                     (env(''GOOGLE_API_KEY'' := v, ''GEMINI_API_KEY'' := v')) w =
                   get_google_model loaded sdk env w) \<and>
           (\<exists>m. fst (get_google_model loaded sdk_ok env w) = Inr m \<and>
                handle_api_key m = google_api_key s)"
    if t: "truthy (google_api_key s)"
  proof -
    from t have "truthy (google_key (current_settings loaded w) env)"
      by (simp add: s truthy_py_or)
    from google_handle[of loaded w env, OF this] t
    have "\<exists>m. fst (get_google_model loaded sdk_ok env w) = Inr m \<and>
        handle_api_key m = google_api_key s"
      by (auto simp: s py_or_truthy)
    moreover from t have "get_google_model loaded sdk
                     (env(''GOOGLE_API_KEY'' := v, ''GEMINI_API_KEY'' := v')) w =
                   get_google_model loaded sdk env w" for v v'
      unfolding s by (rule google_env_keys_ignored)
    ultimately show ?thesis
      by simp
  qed
  have e: "\<forall>v. get_google_model loaded sdk (env(''GEMINI_API_KEY'' := v)) w =
               get_google_model loaded sdk env w"
    if "truthy (env ''GOOGLE_API_KEY'')"
    using that by (simp add: google_env_gemini_ignored)
  have f: "\<exists>m. fst (get_google_model loaded sdk_ok env w) = Inr m \<and>
               handle_api_key m = env ''GOOGLE_API_KEY''"
    if "\<not> truthy (google_api_key s)" "truthy (env ''GOOGLE_API_KEY'')"
  proof -
    from that have "truthy (google_key (current_settings loaded w) env)"
      by (simp add: s truthy_py_or)
    from google_handle[of loaded w env, OF this] that show ?thesis
      by (auto simp: s py_or_truthy py_or_falsy)
  qed
  have g: "\<exists>m. fst (get_openai_model loaded sdk_ok env w) = Inr m \<and>
               handle_api_key m = env ''OPENAI_API_KEY''"
    if "\<not> truthy (openai_api_key s)" "truthy (env ''OPENAI_API_KEY'')"
  proof -
    from that have "truthy (openai_key (current_settings loaded w) env)"
      by (simp add: s truthy_py_or)
    from openai_handle[of loaded w env, OF this] that show ?thesis
      by (auto simp: s py_or_truthy py_or_falsy)
  qed
  have h: "\<exists>m. fst (get_google_model loaded sdk_ok env w) = Inr m \<and>
               handle_api_key m = env ''GEMINI_API_KEY''"
    if "\<not> truthy (google_api_key s)" "\<not> truthy (env ''GOOGLE_API_KEY'')"
      "truthy (env ''GEMINI_API_KEY'')"
  proof -
    from that have "truthy (google_key (current_settings loaded w) env)"
      by (simp add: s truthy_py_or)
    from google_handle[of loaded w env, OF this] that show ?thesis
      by (auto simp: s py_or_truthy py_or_falsy)
  qed
  have i: "\<exists>m. fst (get_anthropic_model loaded sdk_ok env w) = Inr m \<and>
               handle_api_key m = env ''ANTHROPIC_API_KEY''"
    if "\<not> truthy (anthropic_api_key s)" "truthy (env ''ANTHROPIC_API_KEY'')"
  proof -
    from that have "truthy (anthropic_key (current_settings loaded w) env)"
      by (simp add: s truthy_py_or)
    from anthropic_handle[of loaded w env, OF this] that show ?thesis
      by (auto simp: s py_or_truthy py_or_falsy)
  qed
  have j: "\<exists>m. fst (get_openrouter_model loaded sdk_ok env w) = Inr m \<and>
               handle_api_key m = env ''OPENROUTER_API_KEY''"
    if "\<not> truthy (openrouter_api_key s)" "truthy (env ''OPENROUTER_API_KEY'')"
  proof -
    from that have "truthy (openrouter_key (current_settings loaded w) env)"
      by (simp add: s truthy_py_or)
    from openrouter_handle[of loaded w env, OF this] that show ?thesis
      by (auto simp: s py_or_truthy py_or_falsy)
  qed
  from a b c d e f g h i j show ?thesis
    by blast
qed

theorem configured_key_preferred_witness:
  "(\<exists>m. fst (get_openai_model (Settings_defaults\<lparr>openai_api_key := Some ''cfg-key''\<rparr>) sdk_ok
             (environ_of [(''OPENAI_API_KEY'', ''env-key'')]) initial_world) = Inr m \<and>
        handle_api_key m = Some ''cfg-key'') \<and>
   (\<exists>m. fst (get_google_model Settings_defaults sdk_ok
             (environ_of [(''GEMINI_API_KEY'', ''gemini-key''), (''GOOGLE_API_KEY'', ''google-key'')])
             initial_world) = Inr m \<and>
        handle_api_key m = Some ''google-key'')"
proof -
  have s: "Settings_defaults\<lparr>openai_api_key := Some ''cfg-key''\<rparr> =
           current_settings (Settings_defaults\<lparr>openai_api_key := Some ''cfg-key''\<rparr>) initial_world"
    and s': "Settings_defaults = current_settings Settings_defaults initial_world"
    by simp_all
  from configured_key_preferred[OF s, of sdk_ok "environ_of [(''OPENAI_API_KEY'', ''env-key'')]"]
    configured_key_preferred[OF s', of sdk_ok
      "environ_of [(''GEMINI_API_KEY'', ''gemini-key''), (''GOOGLE_API_KEY'', ''google-key'')]"]
  show ?thesis
    by (auto simp: Settings_defaults_def)
qed

subsection \<open>Base-URL overrides\<close>

text \<open>
  C8: a non-empty base-URL override, from the settings or the environment, changes the
  handle the OpenAI and Anthropic factories build: the provider then wraps a client
  constructed with that URL, and without an override it is built from the key alone. The
  Google factory ignores an override: it logs a warning, its result is the same for every
  value of the setting and of \<open>GOOGLE_BASE_URL\<close>, and with a key it still succeeds, with a
  handle that carries no base URL.
\<close>

theorem base_url_override:
  assumes s: "s = current_settings loaded w"
  shows "(\<forall>k u. if_truthy (openai_key s env) = Some k \<and> if_truthy (openai_url s env) = Some u \<longrightarrow>
            fst (get_openai_model loaded sdk_ok env w) =
              Inr (OpenAIModel (openai_model_name s)
                     (OpenAIProvider_openai_client (AsyncOpenAI k u)))) \<and>
         (\<forall>k. if_truthy (openai_key s env) = Some k \<and> \<not> truthy (openai_url s env) \<longrightarrow>
            fst (get_openai_model loaded sdk_ok env w) =
              Inr (OpenAIModel (openai_model_name s) (OpenAIProvider_api_key k))) \<and>
         (\<forall>k u. if_truthy (anthropic_key s env) = Some k \<and>
                 if_truthy (anthropic_url s env) = Some u \<longrightarrow>
            fst (get_anthropic_model loaded sdk_ok env w) =
              Inr (AnthropicModel (anthropic_model_name s)
                     (AnthropicProvider_anthropic_client (AsyncAnthropic k u)))) \<and>
         (\<forall>k. if_truthy (anthropic_key s env) = Some k \<and> \<not> truthy (anthropic_url s env) \<longrightarrow>
            fst (get_anthropic_model loaded sdk_ok env w) =
              Inr (AnthropicModel (anthropic_model_name s) (AnthropicProvider_api_key k))) \<and>
         (\<forall>loaded' w' b v. current_settings loaded' w' = s\<lparr>google_base_url := b\<rparr> \<longrightarrow>
            fst (get_google_model loaded' sdk (env(''GOOGLE_BASE_URL'' := v)) w') =
            fst (get_google_model loaded sdk env w)) \<and>
         (truthy (google_url s env) \<longrightarrow>
            Log WARNING ''Note: Google/Gemini API does not support custom base URLs in pydantic-ai. This setting will be ignored.''
              \<in> set (log_records (snd (get_google_model loaded sdk env w)))) \<and>
         (\<forall>k. if_truthy (google_key s env) = Some k \<longrightarrow>
            fst (get_google_model loaded sdk_ok env w) =
              Inr (GoogleModel (gemini_model_name s) (GoogleProvider_api_key k)) \<and>
            handle_base_url (GoogleModel (gemini_model_name s) (GoogleProvider_api_key k)) = None)"
proof -
  have a: "fst (get_openai_model loaded sdk_ok env w) =
             Inr (OpenAIModel (openai_model_name s)
                    (OpenAIProvider_openai_client (AsyncOpenAI k u)))"
    if "if_truthy (openai_key s env) = Some k" "if_truthy (openai_url s env) = Some u" for k u
    using that openai_success[of loaded w env k] by (simp add: s)
  have b: "fst (get_openai_model loaded sdk_ok env w) =
             Inr (OpenAIModel (openai_model_name s) (OpenAIProvider_api_key k))"
    if "if_truthy (openai_key s env) = Some k" "\<not> truthy (openai_url s env)" for k
    using that openai_success[of loaded w env k] by (simp add: s if_truthy_falsy)
  have c: "fst (get_anthropic_model loaded sdk_ok env w) =
             Inr (AnthropicModel (anthropic_model_name s)
                    (AnthropicProvider_anthropic_client (AsyncAnthropic k u)))"
    if "if_truthy (anthropic_key s env) = Some k" "if_truthy (anthropic_url s env) = Some u"
    for k u
    using that anthropic_success[of loaded w env k] by (simp add: s)
  have d: "fst (get_anthropic_model loaded sdk_ok env w) =
             Inr (AnthropicModel (anthropic_model_name s) (AnthropicProvider_api_key k))"
    if "if_truthy (anthropic_key s env) = Some k" "\<not> truthy (anthropic_url s env)" for k
    using that anthropic_success[of loaded w env k] by (simp add: s if_truthy_falsy)
  have e: "fst (get_google_model loaded' sdk (env(''GOOGLE_BASE_URL'' := v)) w') =
           fst (get_google_model loaded sdk env w)"
    if "current_settings loaded' w' = s\<lparr>google_base_url := b\<rparr>" for loaded' w' b v
    using that unfolding s by (rule google_base_url_ignored)
  have f: "Log WARNING ''Note: Google/Gemini API does not support custom base URLs in pydantic-ai. This setting will be ignored.''
              \<in> set (log_records (snd (get_google_model loaded sdk env w)))"
    if "truthy (google_url s env)"
  proof -
    from truthy_Some[OF that] obtain u where "if_truthy (google_url s env) = Some u"
      by blast
    from google_override_logged[of loaded w env u sdk] this show ?thesis
      by (auto simp: s)
  qed
  have g: "fst (get_google_model loaded sdk_ok env w) =
             Inr (GoogleModel (gemini_model_name s) (GoogleProvider_api_key k))"
    if "if_truthy (google_key s env) = Some k" for k
    using that google_success[of loaded w env k] by (simp add: s)
  from a b c d e f g show ?thesis
    by simp
qed

theorem base_url_override_witness:
  "fst (get_openai_model Settings_defaults sdk_ok
          (environ_of [(''OPENAI_API_KEY'', ''test-key''), (''OPENAI_BASE_URL'', ''http://proxy/v1'')])
          initial_world) =
     Inr (OpenAIModel ''gpt-4o'' (OpenAIProvider_openai_client (AsyncOpenAI ''test-key'' ''http://proxy/v1''))) \<and>
   fst (get_openai_model Settings_defaults sdk_ok (environ_of [(''OPENAI_API_KEY'', ''test-key'')])
          initial_world) =
     Inr (OpenAIModel ''gpt-4o'' (OpenAIProvider_api_key ''test-key'')) \<and>
   fst (get_google_model (Settings_defaults\<lparr>google_base_url := Some ''http://proxy''\<rparr>) sdk_ok
          ((environ_of [(''GOOGLE_API_KEY'', ''test-key'')])(''GOOGLE_BASE_URL'' := None))
          initial_world) =
     Inr (GoogleModel ''gemini-2.5-pro'' (GoogleProvider_api_key ''test-key'')) \<and>
   fst (get_google_model Settings_defaults sdk_ok (environ_of [(''GOOGLE_API_KEY'', ''test-key'')])
          initial_world) =
     Inr (GoogleModel ''gemini-2.5-pro'' (GoogleProvider_api_key ''test-key''))"
proof -
  have s: "Settings_defaults = current_settings Settings_defaults initial_world"
    by simp
  have s': "current_settings (Settings_defaults\<lparr>google_base_url := Some ''http://proxy''\<rparr>)
              initial_world = Settings_defaults\<lparr>google_base_url := Some ''http://proxy''\<rparr>"
    by simp
  note t1 = base_url_override[OF s, of
      "environ_of [(''OPENAI_API_KEY'', ''test-key''), (''OPENAI_BASE_URL'', ''http://proxy/v1'')]" sdk_ok]
  note t2 = base_url_override[OF s, of "environ_of [(''OPENAI_API_KEY'', ''test-key'')]" sdk_ok]
  note t3 = base_url_override[OF s, of "environ_of [(''GOOGLE_API_KEY'', ''test-key'')]" sdk_ok]
  have 1: "fst (get_openai_model Settings_defaults sdk_ok
          (environ_of [(''OPENAI_API_KEY'', ''test-key''), (''OPENAI_BASE_URL'', ''http://proxy/v1'')])
          initial_world) =
     Inr (OpenAIModel ''gpt-4o'' (OpenAIProvider_openai_client (AsyncOpenAI ''test-key'' ''http://proxy/v1'')))"
    using t1 by (simp add: Settings_defaults_def py_or_def)
  have 2: "fst (get_openai_model Settings_defaults sdk_ok (environ_of [(''OPENAI_API_KEY'', ''test-key'')])
          initial_world) =
     Inr (OpenAIModel ''gpt-4o'' (OpenAIProvider_api_key ''test-key''))"
    using t2 by (simp add: Settings_defaults_def py_or_def)
  have 4: "fst (get_google_model Settings_defaults sdk_ok (environ_of [(''GOOGLE_API_KEY'', ''test-key'')])
          initial_world) =
     Inr (GoogleModel ''gemini-2.5-pro'' (GoogleProvider_api_key ''test-key''))"
    using t3 by (simp add: Settings_defaults_def py_or_def)
  from t3 have "fst (get_google_model (Settings_defaults\<lparr>google_base_url := Some ''http://proxy''\<rparr>)
          sdk_ok ((environ_of [(''GOOGLE_API_KEY'', ''test-key'')])(''GOOGLE_BASE_URL'' := None))
          initial_world) =
        fst (get_google_model Settings_defaults sdk_ok
          (environ_of [(''GOOGLE_API_KEY'', ''test-key'')]) initial_world)"
    using s' by blast
  with 1 2 4 show ?thesis
    by simp
qed

subsection \<open>The fallback chain\<close>

text \<open>
  The list the fallback branch builds is the list of the providers that have a non-empty
  API key (from the settings or the environment), in the fixed order openai, anthropic,
  google, openrouter, each as \<open><wire tag>:<configured model name>\<close>, with \<open>google-gla\<close> as
  the wire tag of Google. \<open>FallbackModel\<close> is called with its head and its tail and with
  nothing else, whatever the libraries do. With all four credentials the list is the four
  entries in that order, with exactly one credential it is that provider's entry alone.
\<close>

lemma fallback_chain_content:
  assumes s: "s = current_settings loaded w"
    and n: "effective_model_name s arg = ''fallback''"
  shows "fallback_models s env = spec_fallback_chain s env \<and>
         wire_tag Google \<noteq> ''gemini'' \<and>
         (\<forall>p rest. spec_fallback_chain s env = p # rest \<longrightarrow>
            fst (get_llm_model loaded sdk env arg w) =
              construct (model_raises sdk) (FallbackModel p rest) \<and>
            handle_chain (FallbackModel p rest) = spec_fallback_chain s env) \<and>
         (has_api_key s env Openai \<and> has_api_key s env Anthropic \<and>
          has_api_key s env Google \<and> has_api_key s env Openrouter \<longrightarrow>
            spec_fallback_chain s env =
              [''openai:'' @ openai_model_name s, ''anthropic:'' @ anthropic_model_name s,
               ''google-gla:'' @ gemini_model_name s, ''openrouter:'' @ openrouter_model_name s]) \<and>
         (\<forall>p. has_api_key s env p \<and> (\<forall>q. q \<noteq> p \<longrightarrow> \<not> has_api_key s env q) \<longrightarrow>
            spec_fallback_chain s env = [chain_entry s p])"
proof -
  have fb: "effective_model_name (current_settings loaded w) arg = ''fallback''"
    using n by (simp add: s)
  have call: "fst (get_llm_model loaded sdk' env arg w) =
                construct (model_raises sdk') (FallbackModel p rest)"
    if "spec_fallback_chain s env = p # rest" for p rest sdk'
    using that by (simp add: llm_fallback[OF fb] fallback_models_spec s)
  have all4: "spec_fallback_chain s env =
      [''openai:'' @ openai_model_name s, ''anthropic:'' @ anthropic_model_name s,
       ''google-gla:'' @ gemini_model_name s, ''openrouter:'' @ openrouter_model_name s]"
    if "has_api_key s env Openai" "has_api_key s env Anthropic"
      "has_api_key s env Google" "has_api_key s env Openrouter"
    using that
    by (simp add: spec_fallback_chain_def priority_order_def chain_entry_def
          del: has_api_key.simps)
  have one: "spec_fallback_chain s env = [chain_entry s p]"
    if has: "has_api_key s env p" and others: "\<forall>q. q \<noteq> p \<longrightarrow> \<not> has_api_key s env q" for p
  proof (cases p)
    case Openai
    with others have "\<not> has_api_key s env Anthropic" "\<not> has_api_key s env Google"
      "\<not> has_api_key s env Openrouter"
      by (auto simp del: has_api_key.simps)
    with has Openai show ?thesis
      by (simp add: spec_fallback_chain_def priority_order_def del: has_api_key.simps)
  next
    case Anthropic
    with others have "\<not> has_api_key s env Openai" "\<not> has_api_key s env Google"
      "\<not> has_api_key s env Openrouter"
      by (auto simp del: has_api_key.simps)
    with has Anthropic show ?thesis
      by (simp add: spec_fallback_chain_def priority_order_def del: has_api_key.simps)
  next
    case Google
    with others have "\<not> has_api_key s env Openai" "\<not> has_api_key s env Anthropic"
      "\<not> has_api_key s env Openrouter"
      by (auto simp del: has_api_key.simps)
    with has Google show ?thesis
      by (simp add: spec_fallback_chain_def priority_order_def del: has_api_key.simps)
  next
    case Openrouter
    with others have "\<not> has_api_key s env Openai" "\<not> has_api_key s env Anthropic"
      "\<not> has_api_key s env Google"
      by (auto simp del: has_api_key.simps)
    with has Openrouter show ?thesis
      by (simp add: spec_fallback_chain_def priority_order_def del: has_api_key.simps)
  qed
  have chain: "fst (get_llm_model loaded sdk env arg w) =
                 construct (model_raises sdk) (FallbackModel p rest) \<and>
               handle_chain (FallbackModel p rest) = spec_fallback_chain s env"
    if "spec_fallback_chain s env = p # rest" for p rest
    using call[OF that, of sdk] that by simp
  have tag: "wire_tag Google \<noteq> ''gemini''"
    by simp
  from fallback_models_spec[of s env] tag chain all4 one show ?thesis
    by blast
qed

text \<open>
  C2, at an input where the code departs from it: the only credential is an Anthropic key
  in the settings, and no variable is set in the environment. The code counts the provider
  as usable and builds the single-entry list the claim describes, but it calls
  \<open>FallbackModel\<close> with that string alone. The argument of the call, and so its outcome, is
  the same for every value \<open>k\<close> of the configured key: the key never reaches the library.
  Whatever \<open>FallbackModel\<close> raises on the string leaves \<open>get_llm_model\<close> as it is, so the
  call is an error whenever the library cannot resolve the string on its own. The
  Anthropic factory, at the same input and with the same libraries, hands the key to the
  provider and returns a handle.
\<close>

theorem fallback_key_not_passed:
  assumes k: "k \<noteq> []"
  shows "fallback_models (Settings_defaults\<lparr>anthropic_api_key := Some k\<rparr>) empty_environ =
           [''anthropic:claude-3-5-sonnet-latest''] \<and>
         fst (get_llm_model (Settings_defaults\<lparr>anthropic_api_key := Some k\<rparr>) sdk empty_environ
                (Some ''fallback'') initial_world) =
           construct (model_raises sdk) (FallbackModel ''anthropic:claude-3-5-sonnet-latest'' []) \<and>
         (\<forall>e. model_raises sdk (FallbackModel ''anthropic:claude-3-5-sonnet-latest'' []) = Some e \<longrightarrow>
            fst (get_llm_model (Settings_defaults\<lparr>anthropic_api_key := Some k\<rparr>) sdk
                   empty_environ (Some ''fallback'') initial_world) = Inl e) \<and>
         fst (get_llm_model (Settings_defaults\<lparr>anthropic_api_key := Some k\<rparr>)
                sdk_strings_unresolved empty_environ (Some ''fallback'') initial_world) =
           Inl (LibraryError ''UserError'') \<and>
         fst (get_anthropic_model (Settings_defaults\<lparr>anthropic_api_key := Some k\<rparr>)
                sdk_strings_unresolved empty_environ initial_world) =
           Inr (AnthropicModel ''claude-3-5-sonnet-latest'' (AnthropicProvider_api_key k))"
proof -
  let ?s = "Settings_defaults\<lparr>anthropic_api_key := Some k\<rparr>"
  have name: "effective_model_name (current_settings ?s initial_world) (Some ''fallback'') =
              ''fallback''"
    by simp
  have models: "fallback_models ?s empty_environ = [''anthropic:claude-3-5-sonnet-latest'']"
    using k by (simp add: fallback_models_def Settings_defaults_def py_or_def)
  have call: "fst (get_llm_model ?s sdk' empty_environ (Some ''fallback'') initial_world) =
              construct (model_raises sdk') (FallbackModel ''anthropic:claude-3-5-sonnet-latest'' [])"
    for sdk'
    by (subst llm_fallback[OF name]) (simp add: models)
  have raised: "fst (get_llm_model ?s sdk empty_environ (Some ''fallback'') initial_world) = Inl e"
    if "model_raises sdk (FallbackModel ''anthropic:claude-3-5-sonnet-latest'' []) = Some e" for e
    using that by (simp add: call construct_def)
  have unresolved: "fst (get_llm_model ?s sdk_strings_unresolved empty_environ (Some ''fallback'')
                      initial_world) = Inl (LibraryError ''UserError'')"
    by (simp add: call construct_def sdk_strings_unresolved_def)
  have factory: "fst (get_anthropic_model ?s sdk_strings_unresolved empty_environ initial_world) =
                 Inr (AnthropicModel ''claude-3-5-sonnet-latest'' (AnthropicProvider_api_key k))"
    using k
    by (simp add: get_anthropic_model_def get_settings_eq Let_def Settings_defaults_def py_or_def
          construct_def sdk_strings_unresolved_def)
  from models call[of sdk] raised unresolved factory show ?thesis
    by blast
qed

theorem fallback_key_not_passed_witness:
  "''cfg-key'' \<noteq> [] \<and>
   fallback_models (Settings_defaults\<lparr>anthropic_api_key := Some ''cfg-key''\<rparr>) empty_environ =
     [''anthropic:claude-3-5-sonnet-latest''] \<and>
   fst (get_llm_model (Settings_defaults\<lparr>anthropic_api_key := Some ''cfg-key''\<rparr>)
          sdk_strings_unresolved empty_environ (Some ''fallback'') initial_world) =
     Inl (LibraryError ''UserError'') \<and>
   fst (get_llm_model (Settings_defaults\<lparr>anthropic_api_key := Some ''cfg-key''\<rparr>)
          sdk_broken empty_environ (Some ''fallback'') initial_world) =
     Inl (LibraryError ''model'') \<and>
   fst (get_anthropic_model (Settings_defaults\<lparr>anthropic_api_key := Some ''cfg-key''\<rparr>)
          sdk_strings_unresolved empty_environ initial_world) =
     Inr (AnthropicModel ''claude-3-5-sonnet-latest'' (AnthropicProvider_api_key ''cfg-key''))"
proof -
  have k: "''cfg-key'' \<noteq> []"
    by simp
  have raises: "model_raises sdk_broken (FallbackModel ''anthropic:claude-3-5-sonnet-latest'' []) =
                Some (LibraryError ''model'')"
    by (simp add: sdk_broken_def)
  from fallback_key_not_passed[OF k, of sdk_broken] raises k show ?thesis
    by blast
qed

subsection \<open>The fallback path with no usable provider\<close>

text \<open>
  C3: \<open>get_llm_model("fallback")\<close> with no provider having a usable (non-empty) API key
  raises \<open>ConfigurationException\<close> and never returns an empty chain: whatever the libraries
  do, a handle returned on the fallback path is a \<open>FallbackModel\<close> whose chain is the list
  the code built, and that chain has at least one entry.
\<close>

theorem fallback_never_empty:
  assumes "effective_model_name (current_settings loaded w) arg = ''fallback''"
  shows "((\<forall>p. \<not> has_api_key (current_settings loaded w) env p) \<longrightarrow>
            fst (get_llm_model loaded sdk env arg w) = Inl no_fallback_providers \<and>
            raises_ConfigurationError (fst (get_llm_model loaded sdk env arg w))) \<and>
         (\<forall>m. fst (get_llm_model loaded sdk env arg w) = Inr m \<longrightarrow>
            handle_class m = ''FallbackModel'' \<and>
            handle_chain m = fallback_models (current_settings loaded w) env \<and>
            1 \<le> length (handle_chain m))"
proof (cases "fallback_models (current_settings loaded w) env")
  case Nil
  then show ?thesis
    by (simp add: llm_fallback[OF assms] no_fallback_providers_def)
next
  case (Cons primary rest)
  have "\<not> (\<forall>p. \<not> has_api_key (current_settings loaded w) env p)"
  proof
    assume "\<forall>p. \<not> has_api_key (current_settings loaded w) env p"
    then have "fallback_models (current_settings loaded w) env = []"
      unfolding fallback_models_empty by blast
    with Cons show False by simp
  qed
  with Cons show ?thesis
    by (auto simp: llm_fallback[OF assms] dest: construct_Inr)
qed

theorem fallback_never_empty_witness:
  "raises_ConfigurationError
     (fst (get_llm_model Settings_defaults sdk_ok empty_environ (Some ''fallback'') initial_world)) \<and>
   fst (get_llm_model Settings_defaults sdk_ok (environ_of [(''GEMINI_API_KEY'', ''g-key'')])
          (Some ''fallback'') initial_world) =
     Inr (FallbackModel ''google-gla:gemini-2.5-pro'' []) \<and>
   handle_chain (FallbackModel ''google-gla:gemini-2.5-pro'' []) =
     fallback_models Settings_defaults (environ_of [(''GEMINI_API_KEY'', ''g-key'')]) \<and>
   1 \<le> length (handle_chain (FallbackModel ''google-gla:gemini-2.5-pro'' []))"
proof -
  have name: "effective_model_name (current_settings Settings_defaults initial_world)
                (Some ''fallback'') = ''fallback''"
    by simp
  have none: "\<forall>p. \<not> has_api_key (current_settings Settings_defaults initial_world) empty_environ p"
  proof
    fix p show "\<not> has_api_key (current_settings Settings_defaults initial_world) empty_environ p"
      by (cases p) (simp_all add: Settings_defaults_def)
  qed
  have first: "raises_ConfigurationError
     (fst (get_llm_model Settings_defaults sdk_ok empty_environ (Some ''fallback'') initial_world))"
    using fallback_never_empty[OF name, of empty_environ sdk_ok] none by blast
  have second: "fst (get_llm_model Settings_defaults sdk_ok
                  (environ_of [(''GEMINI_API_KEY'', ''g-key'')]) (Some ''fallback'') initial_world) =
                Inr (FallbackModel ''google-gla:gemini-2.5-pro'' [])"
    by (subst llm_fallback[OF name])
       (simp add: fallback_models_def Settings_defaults_def py_or_def)
  from fallback_never_empty[OF name, of "environ_of [(''GEMINI_API_KEY'', ''g-key'')]" sdk_ok]
    second
  have "handle_chain (FallbackModel ''google-gla:gemini-2.5-pro'' []) =
      fallback_models (current_settings Settings_defaults initial_world)
        (environ_of [(''GEMINI_API_KEY'', ''g-key'')]) \<and>
    1 \<le> length (handle_chain (FallbackModel ''google-gla:gemini-2.5-pro'' []))"
    by blast
  then have third: "handle_chain (FallbackModel ''google-gla:gemini-2.5-pro'' []) =
      fallback_models Settings_defaults (environ_of [(''GEMINI_API_KEY'', ''g-key'')]) \<and>
    1 \<le> length (handle_chain (FallbackModel ''google-gla:gemini-2.5-pro'' []))"
    unfolding initial_world_simps .
  from first second third show ?thesis
    by blast
qed

text \<open>
  C10: on the fallback path the \<open>ConfigurationException\<close> for zero usable providers reaches
  the caller as it is, never inside an \<open>AIProviderException\<close>, and it is raised before
  anything is constructed: the outcome is the same for every behaviour of the libraries,
  and the call logs nothing. A provider factory in the same situation (no key for its
  provider) raises \<open>AIProviderException\<close> instead, since its catch-all clause wraps the
  \<open>ConfigurationException\<close>.
\<close>

theorem fallback_error_unwrapped:
  assumes "effective_model_name (current_settings loaded w) arg = ''fallback''"
    and "\<not> has_api_key (current_settings loaded w) env Openai"
    and "\<not> has_api_key (current_settings loaded w) env Anthropic"
    and "\<not> has_api_key (current_settings loaded w) env Google"
    and "\<not> has_api_key (current_settings loaded w) env Openrouter"
  shows "get_llm_model loaded sdk env arg w =
           (Inl no_fallback_providers,
            w\<lparr>settings_global := Some (current_settings loaded w)\<rparr>) \<and>
         is_ConfigurationError no_fallback_providers \<and>
         \<not> raises_ProviderInitError (fst (get_llm_model loaded sdk env arg w)) \<and>
         log_records (snd (get_llm_model loaded sdk env arg w)) = log_records w \<and>
         raises_ProviderInitError (fst (get_openai_model loaded sdk env w)) \<and>
         raises_ProviderInitError (fst (get_anthropic_model loaded sdk env w)) \<and>
         raises_ProviderInitError (fst (get_google_model loaded sdk env w)) \<and>
         raises_ProviderInitError (fst (get_openrouter_model loaded sdk env w))"
proof -
  have "fallback_models (current_settings loaded w) env = []"
    using assms(2-5) by (simp add: fallback_models_empty)
  then have call: "get_llm_model loaded sdk env arg w =
      (Inl no_fallback_providers, w\<lparr>settings_global := Some (current_settings loaded w)\<rparr>)"
    by (simp add: llm_fallback[OF assms(1)])
  have keys: "\<not> truthy (openai_key (current_settings loaded w) env)"
    "\<not> truthy (anthropic_key (current_settings loaded w) env)"
    "\<not> truthy (google_key (current_settings loaded w) env)"
    "\<not> truthy (openrouter_key (current_settings loaded w) env)"
    using assms(2-5) by (simp_all add: truthy_py_or)
  show ?thesis
    by (simp add: call no_fallback_providers_def
          openai_no_key[of loaded w env sdk, OF keys(1)]
          anthropic_no_key[of loaded w env sdk, OF keys(2)]
          google_no_key[of loaded w env sdk, OF keys(3)]
          openrouter_no_key[of loaded w env sdk, OF keys(4)]
          openai_init_failed_def anthropic_init_failed_def google_init_failed_def
          openrouter_init_failed_def)
qed

theorem fallback_error_unwrapped_witness:
  "get_llm_model Settings_defaults sdk_broken empty_environ (Some ''fallback'') initial_world =
     (Inl no_fallback_providers, initial_world\<lparr>settings_global := Some Settings_defaults\<rparr>) \<and>
   raises_ProviderInitError (fst (get_openai_model Settings_defaults sdk_broken empty_environ initial_world))"
  using fallback_error_unwrapped[of Settings_defaults initial_world "Some ''fallback''"
          empty_environ sdk_broken]
  by (simp add: Settings_defaults_def)

subsection \<open>Unknown identifiers\<close>

text \<open>
  C4, as the code has it: the identifier in force is the argument when that is a
  non-empty string, and \<open>settings.ai_model\<close> when the argument is absent or empty. When the
  identifier in force neither starts with \<open>openai:\<close>, \<open>anthropic:\<close>, \<open>gemini:\<close> or
  \<open>openrouter:\<close> nor equals \<open>fallback\<close>, \<open>get_llm_model\<close> raises no error of its own: it logs
  the warning and then runs the OpenAI factory, whose result it returns.
\<close>

theorem unknown_identifier_default:
  assumes s: "s = current_settings loaded w"
    and n: "n = effective_model_name s arg"
    and unknown: "\<not> startswith n ''openai:''" "\<not> startswith n ''anthropic:''"
      "\<not> startswith n ''gemini:''" "\<not> startswith n ''openrouter:''" "n \<noteq> ''fallback''"
  shows "get_llm_model loaded sdk env arg w =
           get_openai_model loaded sdk env
             (logger (unknown_model_warning n) (w\<lparr>settings_global := Some s\<rparr>)) \<and>
         fst (get_llm_model loaded sdk env arg w) = fst (get_openai_model loaded sdk env w) \<and>
         (\<exists>rest. log_records (snd (get_llm_model loaded sdk env arg w)) =
                   log_records w @ unknown_model_warning n # rest) \<and>
         (\<forall>a. arg = Some a \<and> a \<noteq> [] \<longrightarrow> n = a)"
proof -
  let ?w = "logger (unknown_model_warning n) (w\<lparr>settings_global := Some s\<rparr>)"
  have call: "get_llm_model loaded sdk env arg w = get_openai_model loaded sdk env ?w"
    using unknown llm_default[of loaded w arg sdk env] by (simp add: s n)
  have cur: "current_settings loaded ?w = s"
    by simp
  have frame: "get_openai_model loaded sdk env ?w =
      (fst (get_openai_model loaded sdk env (base_world s)),
       ?w\<lparr>settings_global := Some s,
          log_records := log_records ?w @
            log_records (snd (get_openai_model loaded sdk env (base_world s)))\<rparr>)"
    using openai_frame[of loaded sdk env ?w] unfolding cur .
  have direct: "fst (get_openai_model loaded sdk env w) =
                fst (get_openai_model loaded sdk env (base_world s))"
    using openai_frame[of loaded sdk env w] by (simp add: s)
  have name: "n = a" if "arg = Some a" "a \<noteq> []" for a
    using that by (simp add: n)
  show ?thesis
    unfolding call frame direct using name by (simp add: logger_def)
qed

theorem unknown_identifier_default_witness:
  "get_llm_model Settings_defaults sdk_ok (environ_of [(''OPENAI_API_KEY'', ''test-key'')])
     (Some ''bogus'') initial_world =
   (Inr (OpenAIModel ''gpt-4o'' (OpenAIProvider_api_key ''test-key'')),
    \<lparr>settings_global = Some Settings_defaults,
      log_records = [unknown_model_warning ''bogus'']\<rparr>)"
proof -
  have s: "Settings_defaults = current_settings Settings_defaults initial_world"
    by simp
  have n: "''bogus'' = effective_model_name Settings_defaults (Some ''bogus'')"
    by simp
  have unknown: "\<not> startswith ''bogus'' ''openai:''" "\<not> startswith ''bogus'' ''anthropic:''"
    "\<not> startswith ''bogus'' ''gemini:''" "\<not> startswith ''bogus'' ''openrouter:''"
    "''bogus'' \<noteq> ''fallback''"
    by simp_all
  have step: "get_llm_model Settings_defaults sdk_ok (environ_of [(''OPENAI_API_KEY'', ''test-key'')])
          (Some ''bogus'') initial_world =
        get_openai_model Settings_defaults sdk_ok (environ_of [(''OPENAI_API_KEY'', ''test-key'')])
          (logger (unknown_model_warning ''bogus'')
             (initial_world\<lparr>settings_global := Some Settings_defaults\<rparr>))"
    using unknown_identifier_default[OF s n unknown] by blast
  have run: "get_openai_model Settings_defaults sdk_ok (environ_of [(''OPENAI_API_KEY'', ''test-key'')])
          (logger (unknown_model_warning ''bogus'')
             (initial_world\<lparr>settings_global := Some Settings_defaults\<rparr>)) =
        (Inr (OpenAIModel ''gpt-4o'' (OpenAIProvider_api_key ''test-key'')),
         \<lparr>settings_global = Some Settings_defaults,
           log_records = [unknown_model_warning ''bogus'']\<rparr>)"
    by (simp add: get_openai_model_def get_settings_def Let_def logger_def initial_world_def
          Settings_defaults_def py_or_def)
  show ?thesis
    using trans[OF step run] .
qed

text \<open>
  C4 as stated does not hold for the empty identifier: it starts with none of the four
  prefixes and is not \<open>fallback\<close>, yet with \<open>ai_model\<close> set to an Anthropic identifier the call
  runs the Anthropic factory and logs no warning.
\<close>

theorem empty_identifier_counterexample:
  "\<not> startswith [] ''openai:'' \<and> \<not> startswith [] ''anthropic:'' \<and>
   \<not> startswith [] ''gemini:'' \<and> \<not> startswith [] ''openrouter:'' \<and> [] \<noteq> ''fallback'' \<and>
   fst (get_llm_model (Settings_defaults\<lparr>ai_model := ''anthropic:claude-3-5-sonnet-latest''\<rparr>)
          sdk_ok (environ_of [(''ANTHROPIC_API_KEY'', ''test-key''), (''OPENAI_API_KEY'', ''other-key'')])
          (Some []) initial_world) =
     Inr (AnthropicModel ''claude-3-5-sonnet-latest'' (AnthropicProvider_api_key ''test-key'')) \<and>
   fst (get_openai_model (Settings_defaults\<lparr>ai_model := ''anthropic:claude-3-5-sonnet-latest''\<rparr>)
          sdk_ok (environ_of [(''ANTHROPIC_API_KEY'', ''test-key''), (''OPENAI_API_KEY'', ''other-key'')])
          initial_world) =
     Inr (OpenAIModel ''gpt-4o'' (OpenAIProvider_api_key ''other-key'')) \<and>
   log_records (snd (get_llm_model
          (Settings_defaults\<lparr>ai_model := ''anthropic:claude-3-5-sonnet-latest''\<rparr>)
          sdk_ok (environ_of [(''ANTHROPIC_API_KEY'', ''test-key''), (''OPENAI_API_KEY'', ''other-key'')])
          (Some []) initial_world)) = []"
  by (simp add: get_llm_model_def get_anthropic_model_def get_openai_model_def get_settings_eq
        Let_def Settings_defaults_def py_or_def)

subsection \<open>Consecutive calls\<close>

text \<open>
  C9: under unchanged configuration and environment, a second call of \<open>get_llm_model\<close>
  with the same identifier, made in the state the first call left, gives the same result
  (an equal value: the same exception, or a handle with the same class, model name, key
  and base URL), leaves the settings singleton as it is and logs the same records again.
  The result depends on the state only through the settings in force: it is a function
  of the identifier, the settings and the environment.
\<close>

theorem resolution_deterministic:
  "fst (get_llm_model loaded sdk env arg (snd (get_llm_model loaded sdk env arg w))) =
     fst (get_llm_model loaded sdk env arg w) \<and>
   settings_global (snd (get_llm_model loaded sdk env arg
                           (snd (get_llm_model loaded sdk env arg w)))) =
     settings_global (snd (get_llm_model loaded sdk env arg w)) \<and>
   drop (length (log_records (snd (get_llm_model loaded sdk env arg w))))
     (log_records (snd (get_llm_model loaded sdk env arg
                          (snd (get_llm_model loaded sdk env arg w))))) =
     drop (length (log_records w)) (log_records (snd (get_llm_model loaded sdk env arg w))) \<and>
   (\<forall>loaded' w'. current_settings loaded' w' = current_settings loaded w \<longrightarrow>
      fst (get_llm_model loaded' sdk env arg w') = fst (get_llm_model loaded sdk env arg w))"
proof -
  define s where "s = current_settings loaded w"
  define b where "b = get_llm_model loaded sdk env arg (base_world s)"
  define w1 where "w1 = w\<lparr>settings_global := Some s, log_records := log_records w @ log_records (snd b)\<rparr>"
  have first: "get_llm_model loaded sdk env arg w = (fst b, w1)"
    using llm_frame[of loaded sdk env arg w] by (simp add: s_def b_def w1_def)
  have "current_settings loaded w1 = s"
    by (simp add: w1_def current_settings_def)
  then have second: "get_llm_model loaded sdk env arg w1 =
      (fst b, w1\<lparr>settings_global := Some s, log_records := log_records w1 @ log_records (snd b)\<rparr>)"
    using llm_frame[of loaded sdk env arg w1] by (simp add: b_def)
  have other: "fst (get_llm_model loaded' sdk env arg w') = fst b"
    if "current_settings loaded' w' = current_settings loaded w" for loaded' w'
    using llm_frame[of loaded' sdk env arg w'] that
      llm_loaded_irrelevant[of loaded' sdk env arg s loaded]
    by (simp add: s_def b_def)
  show ?thesis
    unfolding first snd_conv fst_conv second using other
    by (simp add: w1_def)
qed

theorem resolution_deterministic_witness:
  "fst (get_llm_model Settings_defaults sdk_ok (environ_of [(''OPENAI_API_KEY'', ''test-key'')])
          (Some ''openai:gpt-4'')
          (snd (get_llm_model Settings_defaults sdk_ok
                  (environ_of [(''OPENAI_API_KEY'', ''test-key'')]) (Some ''openai:gpt-4'')
                  initial_world))) =
     Inr (OpenAIModel ''gpt-4o'' (OpenAIProvider_api_key ''test-key'')) \<and>
   fst (get_llm_model Settings_defaults sdk_ok (environ_of [(''OPENAI_API_KEY'', ''test-key'')])
          (Some ''openai:gpt-4'') initial_world) =
     Inr (OpenAIModel ''gpt-4o'' (OpenAIProvider_api_key ''test-key'')) \<and>
   fst (get_llm_model (Settings_defaults\<lparr>openai_model_name := ''other''\<rparr>) sdk_ok
          (environ_of [(''OPENAI_API_KEY'', ''test-key'')]) (Some ''openai:gpt-4'')
          (base_world Settings_defaults)) =
     Inr (OpenAIModel ''gpt-4o'' (OpenAIProvider_api_key ''test-key''))"
proof -
  note t = resolution_deterministic[of Settings_defaults sdk_ok
      "environ_of [(''OPENAI_API_KEY'', ''test-key'')]" "Some ''openai:gpt-4''" initial_world]
  have run: "fst (get_llm_model Settings_defaults sdk_ok
                (environ_of [(''OPENAI_API_KEY'', ''test-key'')]) (Some ''openai:gpt-4'')
                initial_world) =
             Inr (OpenAIModel ''gpt-4o'' (OpenAIProvider_api_key ''test-key''))"
    by (simp add: get_llm_model_def get_openai_model_def get_settings_eq Let_def
          Settings_defaults_def py_or_def)
  have cur: "current_settings (Settings_defaults\<lparr>openai_model_name := ''other''\<rparr>)
               (base_world Settings_defaults) =
             current_settings Settings_defaults initial_world"
    by simp
  from t cur have "fst (get_llm_model (Settings_defaults\<lparr>openai_model_name := ''other''\<rparr>) sdk_ok
          (environ_of [(''OPENAI_API_KEY'', ''test-key'')]) (Some ''openai:gpt-4'')
          (base_world Settings_defaults)) =
        fst (get_llm_model Settings_defaults sdk_ok
                (environ_of [(''OPENAI_API_KEY'', ''test-key'')]) (Some ''openai:gpt-4'')
                initial_world)"
    by blast
  with t run show ?thesis
    by simp
qed

end
